theory Spec2Isabelle
  imports Main
begin

section \<open>Values of the host language\<close>

text \<open>
  Python \<^verbatim>\<open>bytes\<close> and ASCII \<^verbatim>\<open>str\<close> values are both \<open>string\<close> (a list of 8-bit
  characters). The exceptions that \<^verbatim>\<open>xmiwrapper.py\<close> raises itself (\<open>InputError\<close>,
  \<open>XMIError\<close>, \<open>TimerError\<close>, \<open>NotImplementedError\<close>) and the ones that the
  \<^verbatim>\<open>ctypes\<close> and \<^verbatim>\<open>numpy\<close> calls it makes can raise are the constructors of \<open>error\<close>;
  a function that can raise returns \<open>error + 'a\<close>.
\<close>

datatype error =
    InputError string
  | XMIError string
  | TimerError string
  | NotImplementedError
  | AttributeError string
  | ValueError string
  | TypeError string
  | IndexError
  | UnicodeDecodeError

datatype State = UNINITIALIZED | INITIALIZED

abbreviation SUCCESS :: int where "SUCCESS \<equiv> 0"

abbreviation NUL :: char where "NUL \<equiv> CHR 0x00"

abbreviation quote :: char where "quote \<equiv> CHR 0x27"

text \<open>\<^verbatim>\<open>str.startswith\<close> and \<^verbatim>\<open>str.lower\<close> (on ASCII text).\<close>

definition startswith :: "string \<Rightarrow> string \<Rightarrow> bool" where
  "startswith s p = (take (length p) s = p)"

definition lower_char :: "char \<Rightarrow> char" where
  "lower_char c =
     (if (65::nat) \<le> of_char c \<and> of_char c \<le> (90::nat) then char_of (of_char c + (32::nat)) else c)"

definition lower :: "string \<Rightarrow> string" where
  "lower s = map lower_char s"

text \<open>
  \<^verbatim>\<open>bytes.decode\<close>. With the codec \<^verbatim>\<open>"ascii"\<close> every byte above 127 raises
  \<open>UnicodeDecodeError\<close>. The default codec (UTF-8) is modelled on ASCII text only: a byte
  above 127 is reported as undecodable, since a \<open>string\<close> cannot hold the code point a
  valid multi-byte sequence would give.
\<close>

definition is_ascii :: "string \<Rightarrow> bool" where
  "is_ascii bs = list_all (\<lambda>c. of_char c < (128::nat)) bs"

definition decode :: "string \<Rightarrow> error + string" where
  "decode bs = (if is_ascii bs then Inr bs else Inl UnicodeDecodeError)"

text \<open>\<^verbatim>\<open>repr\<close> of a string without quotes or escapes in it.\<close>

definition py_repr :: "string \<Rightarrow> string" where
  "py_repr s = [quote] @ s @ [quote]"

text \<open>
  \<^verbatim>\<open>ctypes.create_string_buffer(n)\<close> is \<open>n\<close> zero bytes (a negative length raises
  \<open>ValueError\<close>); its \<^verbatim>\<open>.value\<close> is the content up to the first null byte.
\<close>

definition create_string_buffer :: "int \<Rightarrow> error + string" where
  "create_string_buffer n =
     (if n < 0 then Inl (ValueError ''Array length must be >= 0'')
      else Inr (replicate (nat n) NUL))"

definition c_value :: "string \<Rightarrow> string" where
  "c_value buf = takeWhile (\<lambda>c. c \<noteq> NUL) buf"

text \<open>
  A native routine that writes \<open>src\<close> to the start of a buffer \<open>dst\<close>: the bytes past
  the end of \<open>src\<close> keep their old value. A write past the end of \<open>dst\<close> is undefined
  behaviour of the native side; the model drops it.
\<close>

definition overwrite :: "'a list \<Rightarrow> 'a list \<Rightarrow> 'a list" where
  "overwrite src dst = take (length dst) src @ drop (length src) dst"

section \<open>The native component\<close>

text \<open>
  The compiled kernel is not part of the repository. What the wrapper can observe of it
  is a \<open>library\<close>: the entry points and the integer data symbols it exports, the status
  each entry point returns (which may depend on the calls made before), its variables
  with their metadata and the address of their memory, and the texts it reports.
\<close>

record variable =
  var_rank :: int
  var_type :: string
  var_shape :: "int list"
  var_nbytes :: int
  var_addr :: nat

record library =
  symbols :: "string list"
  constants :: "(string \<times> int) list"
  status :: "string list \<Rightarrow> string \<Rightarrow> int"
  variables :: "(string \<times> variable) list"
  component_name :: string
  last_bmi_error :: string
  input_item_count :: int
  input_var_names :: string
  output_item_count :: int
  output_var_names :: string

text \<open>
  Memory shared by the host and the kernel: a list of byte buffers, a buffer's address
  being its index. A native entry point reads the library, the calls made so far and the
  memory, and returns its status, what it wrote to its output arguments, and the memory.
\<close>

type_synonym memory = "string list"

type_synonym 'a native = "library \<Rightarrow> string list \<Rightarrow> memory \<Rightarrow> int \<times> 'a \<times> memory"

definition native_plain :: "string \<Rightarrow> unit native" where
  "native_plain fname l hist h = (status l hist fname, (), h)"

definition var_status :: "library \<Rightarrow> string list \<Rightarrow> string \<Rightarrow> string \<Rightarrow> int" where
  "var_status l hist fname name =
     (if status l hist fname \<noteq> 0 then status l hist fname
      else if map_of (variables l) name = None then 1 else 0)"

definition native_get_last_bmi_error :: "string \<Rightarrow> string native" where
  "native_get_last_bmi_error buf l hist h =
     (status l hist ''get_last_bmi_error'', overwrite (last_bmi_error l) buf, h)"

definition native_get_component_name :: "string \<Rightarrow> string native" where
  "native_get_component_name buf l hist h =
     (status l hist ''get_component_name'', overwrite (component_name l) buf, h)"

section \<open>The wrapper object and its environment\<close>

text \<open>
  Element types of \<^verbatim>\<open>numpy\<close> arrays: \<open>fixed_bytes w\<close> is the dtype \<^verbatim>\<open>S<w>\<close>, \<open>fixed_str w\<close> is
  \<^verbatim>\<open>U<w>\<close> (ASCII text here, held one byte per character).
\<close>

datatype dtype = float64 | float32 | int32 | fixed_bytes nat | fixed_str nat

datatype log_arg = Str string | Num int

datatype log_record = Debug string "log_arg list" | Error string

datatype timer_event = Started string | Stopped string

text \<open>
  The fields of \<^verbatim>\<open>XmiWrapper\<close> (\<open>state\<close> is \<^verbatim>\<open>self._state\<close>, \<open>debug\<close> is what
  \<^verbatim>\<open>self.logger.isEnabledFor(logging.DEBUG)\<close> answers) and the parts of the process the
  wrapper acts on: the current directory, the memory, the native entry points called so
  far (\<open>calls\<close>, oldest first), the records handed to the logger and the calls made to the
  timer. \<open>uninit\<close> is the content of memory that \<^verbatim>\<open>np.empty\<close> hands out uninitialised,
  \<open>cast\<close> is the conversion \<^verbatim>\<open>numpy\<close> applies to one element stored into an array of
  another element type.
\<close>

record xmi =
  state :: State
  lib :: library
  working_directory :: string
  timing :: bool
  debug :: bool
  cwd :: string
  heap :: memory
  uninit :: "nat \<Rightarrow> char"
  cast :: "dtype \<Rightarrow> dtype \<Rightarrow> string \<Rightarrow> string"
  calls :: "string list"
  logged :: "log_record list"
  timer :: "timer_event list"

type_synonym 'a action = "xmi \<Rightarrow> (error + 'a) \<times> xmi"

definition ret :: "'a \<Rightarrow> 'a action" where
  "ret a s = (Inr a, s)"

definition raise :: "error \<Rightarrow> 'a action" where
  "raise e s = (Inl e, s)"

definition lift :: "error + 'a \<Rightarrow> 'a action" where
  "lift r s = (r, s)"

definition andthen :: "'a action \<Rightarrow> ('a \<Rightarrow> 'b action) \<Rightarrow> 'b action" where
  "andthen m f s = (case m s of (Inl e, s') \<Rightarrow> (Inl e, s') | (Inr a, s') \<Rightarrow> f a s')"

text \<open>\<^verbatim>\<open>try: ... finally: ...\<close> with a clean-up that cannot raise.\<close>

definition try_finally :: "'a action \<Rightarrow> (xmi \<Rightarrow> xmi) \<Rightarrow> 'a action" where
  "try_finally m cleanup s = (case m s of (r, s') \<Rightarrow> (r, cleanup s'))"

text \<open>
  Modelled from the spec: \<^verbatim>\<open>xmipy.utils.cd\<close> is not in the sources. Section 4.7 of the
  specification describes it: the scope captures the current directory, switches to the
  given one, runs the body and restores the previous directory on every exit path.
\<close>

definition cd :: "string \<Rightarrow> 'a action \<Rightarrow> 'a action" where
  "cd newdir body s =
     (let prevdir = cwd s in
      try_finally body (\<lambda>s'. s'\<lparr>cwd := prevdir\<rparr>) (s\<lparr>cwd := newdir\<rparr>))"

text \<open>
  Modelled from the spec: \<^verbatim>\<open>xmipy.utils.repr_function_call\<close> is not in the sources. The
  specification says the error carries the entry point name and a textual rendering of
  each argument, and the log lines quoted in the class's documentation show the layout
  \<^verbatim>\<open>get_var_rank(c_char_p(b'SLN_1/MXITER'), &c_int(0))\<close>. The arguments arrive here
  already rendered.
\<close>

fun join_args :: "string list \<Rightarrow> string" where
  "join_args [] = []"
| "join_args [a] = a"
| "join_args (a # b # bs) = a @ '', '' @ join_args (b # bs)"

definition repr_function_call :: "string \<Rightarrow> string list \<Rightarrow> string" where
  "repr_function_call fname args = fname @ ''('' @ join_args args @ '')''"

text \<open>The renderings of the \<^verbatim>\<open>ctypes\<close> arguments the wrapper passes.\<close>

definition c_char_p :: "string \<Rightarrow> string" where
  "c_char_p name = ''c_char_p(b'' @ py_repr name @ '')''"

definition byref :: "string \<Rightarrow> string" where
  "byref what = ''&'' @ what"

text \<open>
  \<^verbatim>\<open>self.lib.<name>\<close>: looking up an entry point the library does not export raises
  \<open>AttributeError\<close>. \<^verbatim>\<open>c_int.in_dll(self.lib, name)\<close>, which \<open>get_constant_int\<close> uses,
  raises \<open>ValueError\<close> for a data symbol the library does not export.
\<close>

definition lib_function :: "string \<Rightarrow> unit action" where
  "lib_function fname s =
     (if fname \<in> set (symbols (lib s)) then (Inr (), s)
      else (Inl (AttributeError fname), s))"

definition get_constant_int :: "string \<Rightarrow> int action" where
  "get_constant_int name s =
     (case map_of (constants (lib s)) name of
        Some v \<Rightarrow> (Inr v, s)
      | None \<Rightarrow> (Inl (ValueError name), s))"

text \<open>Running a native entry point: its effect on memory, and the call recorded.\<close>

definition run_native :: "string \<Rightarrow> 'a native \<Rightarrow> xmi \<Rightarrow> (int \<times> 'a) \<times> xmi" where
  "run_native fname function s =
     (case function (lib s) (calls s) (heap s) of
        (result, out, h) \<Rightarrow> ((result, out), s\<lparr>heap := h, calls := calls s @ [fname]\<rparr>))"

text \<open>
  The direct calls \<^verbatim>\<open>self.lib.get_last_bmi_error(...)\<close> and
  \<^verbatim>\<open>self.lib.get_component_name(...)\<close> of the failure path: the attribute is looked up,
  the entry point runs, its status is ignored.
\<close>

definition raw_call :: "string \<Rightarrow> 'a native \<Rightarrow> 'a action" where
  "raw_call fname function =
     andthen (lib_function fname) (\<lambda>_. \<lambda>s.
       case run_native fname function s of ((result, out), s') \<Rightarrow> (Inr out, s'))"

text \<open>The body of the inner \<^verbatim>\<open>try\<close> of \<^verbatim>\<open>_execute_function\<close>: the text added to \<open>msg\<close>.\<close>

definition extract_error_message :: "string option \<Rightarrow> string action" where
  "extract_error_message detail =
     andthen (get_constant_int ''BMI_LENERRMESSAGE'') (\<lambda>len_err_msg.
     andthen (lift (create_string_buffer len_err_msg)) (\<lambda>err_msg.
     andthen (raw_call ''get_last_bmi_error'' (native_get_last_bmi_error err_msg)) (\<lambda>err_msg.
     andthen (get_constant_int ''BMI_LENCOMPONENTNAME'') (\<lambda>len_name.
     andthen (lift (create_string_buffer len_name)) (\<lambda>component_name.
     andthen (raw_call ''get_component_name'' (native_get_component_name component_name))
       (\<lambda>component_name.
     let detail_text =
           (case detail of
              Some d \<Rightarrow> '', details : '' @ [quote] @ d @ [quote]
            | None \<Rightarrow> '''') in
     andthen (lift (decode (c_value component_name))) (\<lambda>component_text.
     andthen (lift (decode (c_value err_msg))) (\<lambda>err_text.
     ret ('': Message from '' @ component_text @ '' '' @ [quote] @ err_text @ [quote]
          @ detail_text)))))))))"

definition timer_start :: "string \<Rightarrow> xmi \<Rightarrow> xmi" where
  "timer_start fname s = (if timing s then s\<lparr>timer := timer s @ [Started fname]\<rparr> else s)"

definition timer_stop :: "string \<Rightarrow> xmi \<Rightarrow> xmi" where
  "timer_stop fname s = (if timing s then s\<lparr>timer := timer s @ [Stopped fname]\<rparr> else s)"

definition log_call :: "string \<Rightarrow> string list \<Rightarrow> int \<Rightarrow> xmi \<Rightarrow> xmi" where
  "log_call fname args result s =
     (if debug s
      then s\<lparr>logged := logged s @
             [Debug ''execute function: %s returned %s''
                [Str (repr_function_call fname args), Num result]]\<rparr>
      else s)"

definition log_error :: "string \<Rightarrow> xmi \<Rightarrow> xmi" where
  "log_error text s = s\<lparr>logged := logged s @ [Error text]\<rparr>"

text \<open>
  The branch \<^verbatim>\<open>if result != Status.SUCCESS\<close> of \<^verbatim>\<open>_execute_function\<close>: the message
  is built, the inner \<^verbatim>\<open>try\<close> adds the kernel's own text to it, its handler catches
  \<open>AttributeError\<close> only, and \<open>XMIError\<close> is raised.
\<close>

definition bmi_exception :: "string \<Rightarrow> string list \<Rightarrow> string option \<Rightarrow> 'a action" where
  "bmi_exception fname args detail s =
     (let msg = ''BMI exception in '' @ repr_function_call fname args in
      case extract_error_message detail s of
        (Inr text, s') \<Rightarrow> (Inl (XMIError (msg @ text)), s')
      | (Inl (AttributeError a), s') \<Rightarrow>
          (Inl (XMIError msg), log_error (''Couldn'' @ [quote] @ ''t extract error message'') s')
      | (Inl e, s') \<Rightarrow> (Inl e, s'))"

text \<open>
  \<^verbatim>\<open>XmiWrapper._execute_function\<close>. The resolved entry point is given by its name and
  its behaviour, \<open>args\<close> are the rendered positional arguments and \<open>detail\<close> is
  \<^verbatim>\<open>kwargs.get("detail")\<close>. What the entry point writes to its output arguments is
  returned as the value of the action.
\<close>

definition execute_function ::
  "string \<Rightarrow> string list \<Rightarrow> string option \<Rightarrow> 'a native \<Rightarrow> 'a action" where
  "execute_function fname args detail function s0 =
     try_finally
       (\<lambda>s. case run_native fname function s of
          ((result, out), s1) \<Rightarrow>
            (let s2 = log_call fname args result s1 in
             if result \<noteq> SUCCESS then bmi_exception fname args detail s2
             else (Inr out, s2)))
       (timer_stop fname)
       (timer_start fname s0)"

section \<open>Lifecycle\<close>

definition set_state :: "State \<Rightarrow> unit action" where
  "set_state st s = (Inr (), s\<lparr>state := st\<rparr>)"

definition initialize :: "string \<Rightarrow> unit action" where
  "initialize config_file s =
     (if state s = UNINITIALIZED then
        cd (working_directory s)
          (andthen (lib_function ''initialize'') (\<lambda>_.
           andthen (execute_function ''initialize'' [''b'' @ py_repr config_file] None
                      (native_plain ''initialize'')) (\<lambda>_.
           set_state INITIALIZED))) s
      else raise (InputError ''The library is already initialized'') s)"

definition initialize_mpi :: "int \<Rightarrow> unit action" where
  "initialize_mpi val s =
     (if state s = UNINITIALIZED then
        cd (working_directory s)
          (andthen (lib_function ''initialize_mpi'') (\<lambda>_.
           andthen (execute_function ''initialize_mpi'' [byref ''comm''] None
                      (native_plain ''initialize_mpi'')) (\<lambda>_.
           set_state INITIALIZED))) s
      else raise (InputError ''The library is already initialized'') s)"

definition finalize :: "unit action" where
  "finalize s =
     (if state s = INITIALIZED then
        cd (working_directory s)
          (andthen (lib_function ''finalize'') (\<lambda>_.
           andthen (execute_function ''finalize'' [] None (native_plain ''finalize'')) (\<lambda>_.
           set_state UNINITIALIZED))) s
      else raise (InputError ''The library is not initialized yet'') s)"

text \<open>The body of the method \<^verbatim>\<open>XmiWrapper.__del__\<close>, as a call like any other.\<close>

definition del :: "unit action" where
  "del s = (if state s = INITIALIZED then finalize s else (Inr (), s))"

text \<open>
  The teardown of the wrapper object. \<^verbatim>\<open>__del__\<close> is not called by the program but by the
  interpreter, when it destroys the object, and an exception that leaves \<^verbatim>\<open>__del__\<close> there
  is not raised in any caller: the interpreter hands it to \<^verbatim>\<open>sys.unraisablehook\<close>, which
  prints it on \<^verbatim>\<open>stderr\<close>, and goes on. So the teardown has no error result; its first
  component is the exception the interpreter reported, if there was one. The logger of the
  wrapper is written only by what \<^verbatim>\<open>__del__\<close> itself does.
\<close>

definition teardown :: "xmi \<Rightarrow> error option \<times> xmi" where
  "teardown s =
     (case del s of
        (Inl unraisable, s') \<Rightarrow> (Some unraisable, s')
      | (Inr _, s') \<Rightarrow> (None, s'))"

section \<open>Arrays\<close>

text \<open>
  A \<^verbatim>\<open>numpy\<close> array is a reference into memory: the address of its buffer, its element
  type, its shape and its \<^verbatim>\<open>flags["C"]\<close>. Two arrays over the same address are views of
  the same bytes.
\<close>

fun itemsize :: "dtype \<Rightarrow> nat" where
  "itemsize float64 = 8"
| "itemsize float32 = 4"
| "itemsize int32 = 4"
| "itemsize (fixed_bytes w) = w"
| "itemsize (fixed_str w) = w"

record ndarray =
  data :: nat
  dtype :: dtype
  shape :: "int list"
  c_contiguous :: bool

definition nbytes :: "ndarray \<Rightarrow> nat" where
  "nbytes a = nat (prod_list (shape a)) * itemsize (dtype a)"

definition buffer :: "memory \<Rightarrow> nat \<Rightarrow> string" where
  "buffer h p = (if p < length h then h ! p else [])"

text \<open>The bytes an array shows, and writing bytes through an array (\<^verbatim>\<open>a[...] = ...\<close>).\<close>

definition contents :: "memory \<Rightarrow> ndarray \<Rightarrow> string" where
  "contents h a = take (nbytes a) (buffer h (data a))"

definition store :: "ndarray \<Rightarrow> string \<Rightarrow> memory \<Rightarrow> memory" where
  "store a bs h = (if data a < length h then h[data a := overwrite bs (h ! data a)] else h)"

definition negative_dimensions :: "int list \<Rightarrow> bool" where
  "negative_dimensions shp = list_ex (\<lambda>d. d < 0) shp"

definition alloc :: "string \<Rightarrow> nat action" where
  "alloc bs s = (Inr (length (heap s)), s\<lparr>heap := heap s @ [bs]\<rparr>)"

text \<open>\<^verbatim>\<open>np.empty(shape, dtype, order="C")\<close>: a new buffer with whatever the memory held.\<close>

definition np_empty :: "int list \<Rightarrow> dtype \<Rightarrow> ndarray action" where
  "np_empty shp dt s =
     (if negative_dimensions shp
      then (Inl (ValueError ''negative dimensions are not allowed''), s)
      else andthen (alloc (map (uninit s) [0..<nat (prod_list shp) * itemsize dt]))
             (\<lambda>p. ret \<lparr>data = p, dtype = dt, shape = shp, c_contiguous = True\<rparr>) s)"

text \<open>\<^verbatim>\<open>np.zeros(rank, dtype=np.int32)\<close>, the array \<open>get_var_shape\<close> hands to the kernel.\<close>

definition np_zeros :: "int \<Rightarrow> error + int list" where
  "np_zeros n =
     (if n < 0 then Inl (ValueError ''negative dimensions are not allowed'')
      else Inr (replicate (nat n) 0))"

text \<open>\<^verbatim>\<open>a.copy()\<close>: a new buffer holding the bytes the array shows.\<close>

definition ndarray_copy :: "ndarray \<Rightarrow> ndarray action" where
  "ndarray_copy a s =
     andthen (alloc (contents (heap s) a)) (\<lambda>p. ret (a\<lparr>data := p, c_contiguous := True\<rparr>)) s"

text \<open>
  \<^verbatim>\<open>np.trim_zeros(filt)\<close> with its default \<^verbatim>\<open>trim='fb'\<close>: \<open>first\<close> counts the zeros at the
  front, \<open>last\<close> is the length less the zeros at the back, the result is
  \<^verbatim>\<open>filt[first:last]\<close>.
\<close>

definition trim_zeros :: "int list \<Rightarrow> int list" where
  "trim_zeros filt =
     (let first = length (takeWhile (\<lambda>i. i = 0) filt);
          last = length filt - length (takeWhile (\<lambda>i. i = 0) (rev filt))
      in take (last - first) (drop first filt))"

section \<open>Variable metadata\<close>

definition the_variable :: "library \<Rightarrow> string \<Rightarrow> variable option" where
  "the_variable l name = map_of (variables l) name"

definition native_get_var_rank :: "string \<Rightarrow> int native" where
  "native_get_var_rank name l hist h =
     (var_status l hist ''get_var_rank'' name,
      (case the_variable l name of Some v \<Rightarrow> var_rank v | None \<Rightarrow> 0), h)"

definition native_get_var_type :: "string \<Rightarrow> string \<Rightarrow> string native" where
  "native_get_var_type name buf l hist h =
     (var_status l hist ''get_var_type'' name,
      (case the_variable l name of Some v \<Rightarrow> overwrite (var_type v) buf | None \<Rightarrow> buf), h)"

definition native_get_var_shape :: "string \<Rightarrow> int list \<Rightarrow> int list native" where
  "native_get_var_shape name array l hist h =
     (var_status l hist ''get_var_shape'' name,
      (case the_variable l name of Some v \<Rightarrow> overwrite (var_shape v) array | None \<Rightarrow> array), h)"

definition native_get_var_nbytes :: "string \<Rightarrow> int native" where
  "native_get_var_nbytes name l hist h =
     (var_status l hist ''get_var_nbytes'' name,
      (case the_variable l name of Some v \<Rightarrow> var_nbytes v | None \<Rightarrow> 0), h)"

definition get_var_type :: "string \<Rightarrow> string action" where
  "get_var_type name =
     andthen (get_constant_int ''BMI_LENVARTYPE'') (\<lambda>len_var_type.
     andthen (lift (create_string_buffer len_var_type)) (\<lambda>var_type.
     andthen (lib_function ''get_var_type'') (\<lambda>_.
     andthen (execute_function ''get_var_type'' [c_char_p name, byref ''var_type''] None
                (native_get_var_type name var_type)) (\<lambda>var_type.
     lift (decode (c_value var_type))))))"

definition get_var_rank :: "string \<Rightarrow> int action" where
  "get_var_rank name =
     andthen (lib_function ''get_var_rank'') (\<lambda>_.
     execute_function ''get_var_rank'' [c_char_p name, byref ''rank''] None
       (native_get_var_rank name))"

definition get_var_shape :: "string \<Rightarrow> int list action" where
  "get_var_shape name =
     andthen (get_var_rank name) (\<lambda>rank.
     andthen (lift (np_zeros rank)) (\<lambda>array.
     andthen (lib_function ''get_var_shape'') (\<lambda>_.
     execute_function ''get_var_shape'' [c_char_p name, ''c_void_p(array)''] None
       (native_get_var_shape name array))))"

definition get_var_nbytes :: "string \<Rightarrow> int action" where
  "get_var_nbytes name =
     andthen (lib_function ''get_var_nbytes'') (\<lambda>_.
     execute_function ''get_var_nbytes'' [c_char_p name, byref ''nbytes''] None
       (native_get_var_nbytes name))"

section \<open>Values\<close>

text \<open>
  The native value-transfer entry points. \<open>get_value\<close> copies the variable's memory to
  the buffer it is given, \<open>set_value\<close> copies the buffer it is given to the variable's
  memory, \<open>get_value_ptr\<close> reports the address of the variable's memory. An entry point
  that fails leaves the memory as it was.
\<close>

definition copy_buffer :: "nat \<Rightarrow> nat \<Rightarrow> memory \<Rightarrow> memory" where
  "copy_buffer src dst h =
     (if src < length h \<and> dst < length h then h[dst := overwrite (h ! src) (h ! dst)] else h)"

definition native_get_value :: "string \<Rightarrow> nat \<Rightarrow> unit native" where
  "native_get_value name dest l hist h =
     (var_status l hist ''get_value'' name, (),
      (case the_variable l name of
         Some v \<Rightarrow>
           if var_status l hist ''get_value'' name = 0 then copy_buffer (var_addr v) dest h else h
       | None \<Rightarrow> h))"

definition native_set_value :: "string \<Rightarrow> nat \<Rightarrow> unit native" where
  "native_set_value name src l hist h =
     (var_status l hist ''set_value'' name, (),
      (case the_variable l name of
         Some v \<Rightarrow>
           if var_status l hist ''set_value'' name = 0 then copy_buffer src (var_addr v) h else h
       | None \<Rightarrow> h))"

definition native_get_value_ptr :: "string \<Rightarrow> nat native" where
  "native_get_value_ptr name l hist h =
     (var_status l hist ''get_value_ptr'' name,
      (case the_variable l name of Some v \<Rightarrow> var_addr v | None \<Rightarrow> 0), h)"

text \<open>
  \<^verbatim>\<open>values.contents\<close> of an \<^verbatim>\<open>np.ctypeslib.ndpointer\<close>: the array over the address the
  kernel reported. \<^verbatim>\<open>numpy\<close> builds it as
  \<^verbatim>\<open>frombuffer(buffer, dtype=dtype((dtype, shape))).squeeze(axis=0)\<close>. Building the dtype
  raises \<open>ValueError\<close> for a negative dimension, and \<^verbatim>\<open>frombuffer\<close> raises \<open>ValueError\<close>
  for a dtype of no bytes, which is what a shape with a zero dimension gives. The empty
  shape gives the element type itself, and an array of shape \<^verbatim>\<open>()\<close>.
\<close>

definition ndpointer_contents :: "nat \<Rightarrow> dtype \<Rightarrow> int list \<Rightarrow> ndarray action" where
  "ndpointer_contents p dt shp =
     (if negative_dimensions shp
      then raise (ValueError ''invalid shape in fixed-type tuple'')
      else if 0 \<in> set shp
      then raise (ValueError ''itemsize cannot be zero in type'')
      else ret \<lparr>data = p, dtype = dt, shape = shp, c_contiguous = True\<rparr>)"

text \<open>The keyword argument \<^verbatim>\<open>detail="for variable " + name\<close>.\<close>

definition for_variable :: "string \<Rightarrow> string" where
  "for_variable name = ''for variable '' @ name"

definition get_value_ptr_scalar :: "string \<Rightarrow> ndarray action" where
  "get_value_ptr_scalar name =
     andthen (get_var_type name) (\<lambda>var_type.
     let var_type_lower = lower var_type in
     andthen
       (if startswith var_type_lower ''double'' then ret float64
        else if startswith var_type_lower ''float'' then ret float32
        else if startswith var_type_lower ''int'' then ret int32
        else raise (InputError (''Unsupported value type '' @ py_repr var_type)))
       (\<lambda>arraytype.
     andthen (lib_function ''get_value_ptr'') (\<lambda>_.
     andthen (execute_function ''get_value_ptr'' [c_char_p name, byref ''values'']
                (Some (for_variable name)) (native_get_value_ptr name)) (\<lambda>values.
     ndpointer_contents values arraytype [1]))))"

definition get_value_ptr :: "string \<Rightarrow> ndarray action" where
  "get_value_ptr name =
     andthen (get_var_rank name) (\<lambda>rank.
     if rank = 0 then get_value_ptr_scalar name
     else
       andthen (get_var_type name) (\<lambda>var_type.
       let var_type_lower = lower var_type in
       andthen (get_var_shape name) (\<lambda>shape_array.
       let shape_tuple = trim_zeros shape_array in
       andthen
         (if startswith var_type_lower ''double'' then ret float64
          else if startswith var_type_lower ''float'' then ret float32
          else if startswith var_type_lower ''int'' then ret int32
          else raise (InputError (''Unsupported value type '' @ py_repr var_type)))
         (\<lambda>arraytype.
       andthen (lib_function ''get_value_ptr'') (\<lambda>_.
       andthen (execute_function ''get_value_ptr'' [c_char_p name, byref ''values'']
                  (Some (for_variable name)) (native_get_value_ptr name)) (\<lambda>values.
       ndpointer_contents values arraytype shape_tuple))))))"

subsection \<open>Items of an array\<close>

text \<open>
  Reading item \<open>i\<close> of an array gives its bytes; for the dtypes \<^verbatim>\<open>S\<close> and \<^verbatim>\<open>U\<close>
  \<^verbatim>\<open>numpy\<close> drops the trailing null bytes of the item (\<open>rstrip_nul\<close>). Storing a text in
  item \<open>i\<close> cuts it to the item's width and pads it with null bytes.
\<close>

definition getitem :: "memory \<Rightarrow> ndarray \<Rightarrow> nat \<Rightarrow> string" where
  "getitem h a i =
     take (itemsize (dtype a)) (drop (i * itemsize (dtype a)) (buffer h (data a)))"

definition rstrip_nul :: "string \<Rightarrow> string" where
  "rstrip_nul bs = rev (dropWhile (\<lambda>c. c = NUL) (rev bs))"

definition pad :: "nat \<Rightarrow> string \<Rightarrow> string" where
  "pad w bs = take w (bs @ replicate w NUL)"

definition setitem :: "ndarray \<Rightarrow> nat \<Rightarrow> string \<Rightarrow> memory \<Rightarrow> memory" where
  "setitem a i bs h =
     (let w = itemsize (dtype a); buf = buffer h (data a) in
      if data a < length h
      then h[data a := take (i * w) buf @ overwrite (pad w bs) (drop (i * w) buf)]
      else h)"

text \<open>\<^verbatim>\<open>str.strip()\<close>: the characters for which \<^verbatim>\<open>str.isspace\<close> holds, on ASCII text.\<close>

definition py_isspace :: "char \<Rightarrow> bool" where
  "py_isspace c =
     ((9::nat) \<le> of_char c \<and> of_char c \<le> (13::nat)
      \<or> (28::nat) \<le> of_char c \<and> of_char c \<le> (32::nat))"

definition py_strip :: "string \<Rightarrow> string" where
  "py_strip s = rev (dropWhile py_isspace (rev (dropWhile py_isspace s)))"

definition is_bytes_vector :: "ndarray \<Rightarrow> bool" where
  "is_bytes_vector a =
     (length (shape a) = 1 \<and> (case dtype a of fixed_bytes w \<Rightarrow> True | _ \<Rightarrow> False))"

text \<open>\<^verbatim>\<open>dest[i] = dest[i].decode("ascii").strip()\<close> on an array of dtype \<^verbatim>\<open>S\<close>.\<close>

definition strip_item :: "ndarray \<Rightarrow> nat \<Rightarrow> unit action" where
  "strip_item dest i s =
     (case decode (rstrip_nul (getitem (heap s) dest i)) of
        Inl e \<Rightarrow> (Inl e, s)
      | Inr text \<Rightarrow> (Inr (), s\<lparr>heap := setitem dest i (py_strip text) (heap s)\<rparr>))"

text \<open>
  The same statement for item 0 of any array: a 0-d or empty array has no item 0
  (\<open>IndexError\<close>), and an item that is not \<^verbatim>\<open>bytes\<close> has no \<^verbatim>\<open>decode\<close>
  (\<open>AttributeError\<close>).
\<close>

definition strip_first :: "ndarray \<Rightarrow> unit action" where
  "strip_first dest =
     (case shape dest of
        [] \<Rightarrow> raise IndexError
      | n # _ \<Rightarrow>
          if n = 0 then raise IndexError
          else if is_bytes_vector dest then strip_item dest 0
          else raise (AttributeError ''decode''))"

text \<open>\<^verbatim>\<open>for i, x in enumerate(dest): dest[i] = x.decode("ascii").strip()\<close>.\<close>

fun strip_items :: "ndarray \<Rightarrow> nat list \<Rightarrow> unit action" where
  "strip_items dest [] = ret ()"
| "strip_items dest (i # rest) = andthen (strip_item dest i) (\<lambda>_. strip_items dest rest)"

definition strip_all :: "ndarray \<Rightarrow> unit action" where
  "strip_all dest =
     (case shape dest of
        [] \<Rightarrow> raise (TypeError ''iteration over a 0-d array'')
      | n # _ \<Rightarrow>
          if n = 0 then ret ()
          else if is_bytes_vector dest then strip_items dest [0..<nat n]
          else raise (AttributeError ''decode''))"

text \<open>
  \<^verbatim>\<open>dest.astype(str)\<close>: a new array. An array of dtype \<^verbatim>\<open>S\<close> is decoded as ASCII. The
  texts \<^verbatim>\<open>numpy\<close> makes of numbers are not modelled: the paths of \<open>get_value\<close> reach this
  conversion with a numeric array only when the array is empty.
\<close>

definition astype_str :: "ndarray \<Rightarrow> ndarray action" where
  "astype_str a s =
     (case dtype a of
        fixed_bytes w \<Rightarrow>
          if is_ascii (contents (heap s) a)
          then andthen (alloc (contents (heap s) a))
                 (\<lambda>p. ret (a\<lparr>data := p, dtype := fixed_str w, c_contiguous := True\<rparr>)) s
          else (Inl UnicodeDecodeError, s)
      | fixed_str w \<Rightarrow> ndarray_copy a s
      | _ \<Rightarrow> andthen (alloc [])
                 (\<lambda>p. ret (a\<lparr>data := p, dtype := fixed_str 32, c_contiguous := True\<rparr>)) s)"

text \<open>
  The dtype \<^verbatim>\<open>"<S" + str(ilen + 1)\<close>: \<^verbatim>\<open>numpy\<close> rejects a negative width
  (\<open>TypeError\<close>) and makes the width 0 a width of 1.
\<close>

definition strtype :: "int \<Rightarrow> error + dtype" where
  "strtype ilen =
     (if ilen + 1 < 0 then Inl (TypeError ''data type not understood'')
      else Inr (fixed_bytes (max 1 (nat (ilen + 1)))))"

text \<open>
  \<^verbatim>\<open>dest[0] = src[0]\<close>: the first item of \<open>src\<close>, converted to the element type of
  \<open>dest\<close>, is stored in every element of \<open>dest[0]\<close>.
\<close>

definition assign_first :: "ndarray \<Rightarrow> ndarray \<Rightarrow> unit action" where
  "assign_first dest src s =
     (case shape dest of
        [] \<Rightarrow> (Inl IndexError, s)
      | n # inner \<Rightarrow>
          if n = 0 then (Inl IndexError, s)
          else
            (let item = getitem (heap s) src 0;
                 item = (if dtype dest = dtype src then item
                         else cast s (dtype src) (dtype dest) item)
             in (Inr (),
                 s\<lparr>heap := store dest (concat (replicate (nat (prod_list inner)) item))
                              (heap s)\<rparr>)))"

text \<open>
  The end of the branch of \<open>get_value\<close> for arrays of strings, from the native call on:
  the kernel fills \<open>dest\<close>, each item is decoded and stripped in place, and the result
  is \<^verbatim>\<open>dest.astype(str)\<close>.
\<close>

definition string_array :: "string \<Rightarrow> ndarray \<Rightarrow> ndarray action" where
  "string_array name dest =
     andthen (lib_function ''get_value'') (\<lambda>_.
     andthen (execute_function ''get_value'' [c_char_p name, byref ''dest''] None
                (native_get_value name (data dest))) (\<lambda>_.
     andthen (strip_all dest) (\<lambda>_.
     astype_str dest)))"

text \<open>\<^verbatim>\<open>XmiWrapper.get_value\<close>.\<close>

definition get_value :: "string \<Rightarrow> ndarray option \<Rightarrow> ndarray action" where
  "get_value name dest =
     (if (case dest of Some d \<Rightarrow> \<not> c_contiguous d | None \<Rightarrow> False)
      then raise (InputError ''Array should have C layout'')
      else
        andthen (get_var_rank name) (\<lambda>rank.
        andthen (get_var_type name) (\<lambda>var_type.
        let var_type_lower = lower var_type in
        if rank = 0 then
          (if startswith var_type_lower ''string'' then
             andthen (get_var_nbytes name) (\<lambda>ilen.
             andthen (case dest of
                        None \<Rightarrow> andthen (lift (strtype ilen)) (np_empty [1])
                      | Some d \<Rightarrow> ret d) (\<lambda>dest.
             andthen (lib_function ''get_value'') (\<lambda>_.
             andthen (execute_function ''get_value'' [c_char_p name, byref ''dest''] None
                        (native_get_value name (data dest))) (\<lambda>_.
             andthen (strip_first dest) (\<lambda>_.
             astype_str dest)))))
           else
             andthen (get_value_ptr_scalar name) (\<lambda>src.
             case dest of
               None \<Rightarrow> andthen (get_value_ptr_scalar name) ndarray_copy
             | Some d \<Rightarrow> andthen (assign_first d src) (\<lambda>_. ret d)))
        else
          andthen (get_var_shape name) (\<lambda>var_shape.
          if startswith var_type_lower ''double'' then
            andthen (case dest of None \<Rightarrow> np_empty var_shape float64 | Some d \<Rightarrow> ret d)
              (\<lambda>dest.
            andthen (lib_function ''get_value'') (\<lambda>_.
            andthen (execute_function ''get_value'' [c_char_p name, byref ''dest''] None
                       (native_get_value name (data dest))) (\<lambda>_.
            ret dest)))
          else if startswith var_type_lower ''int'' then
            andthen (case dest of None \<Rightarrow> np_empty var_shape int32 | Some d \<Rightarrow> ret d)
              (\<lambda>dest.
            andthen (lib_function ''get_value'') (\<lambda>_.
            andthen (execute_function ''get_value'' [c_char_p name, byref ''dest''] None
                       (native_get_value name (data dest))) (\<lambda>_.
            ret dest)))
          else if startswith var_type_lower ''string'' then
            (case var_shape of
               [] \<Rightarrow> raise IndexError
             | n # _ \<Rightarrow>
                 (case dest of
                    None \<Rightarrow>
                      if n = 0
                      then andthen (alloc [])
                             (\<lambda>p. ret \<lparr>data = p, dtype = fixed_str 1, shape = [0],
                                        c_contiguous = True\<rparr>)
                      else
                        andthen (get_var_nbytes name) (\<lambda>nb.
                        andthen (lift (strtype (nb div n))) (\<lambda>dt.
                        andthen (np_empty [n] dt) (string_array name)))
                  | Some d \<Rightarrow> string_array name d))
          else raise (InputError (''Unsupported value type '' @ py_repr var_type))))))"

text \<open>\<^verbatim>\<open>XmiWrapper.set_value\<close>.\<close>

definition set_value :: "string \<Rightarrow> ndarray \<Rightarrow> unit action" where
  "set_value name values =
     (if \<not> c_contiguous values then raise (InputError ''Array should have C layout'')
      else
        andthen (get_var_type name) (\<lambda>var_type.
        let var_type_lower = lower var_type in
        if startswith var_type_lower ''double'' then
          (if dtype values \<noteq> float64
           then raise (InputError ''Array should have float64 elements'')
           else
             andthen (lib_function ''set_value'') (\<lambda>_.
             execute_function ''set_value'' [c_char_p name, byref ''values''] None
               (native_set_value name (data values))))
        else if startswith var_type_lower ''int'' then
          (if dtype values \<noteq> int32
           then raise (InputError ''Array should have int32 elements'')
           else
             andthen (lib_function ''set_value'') (\<lambda>_.
             execute_function ''set_value'' [c_char_p name, byref ''values''] None
               (native_set_value name (data values))))
        else raise (InputError ''Unsupported value type'')))"

section \<open>Names of the input and output variables\<close>








definition split_nul :: "string \<Rightarrow> string" where
  "split_nul row = takeWhile (\<lambda>c. c \<noteq> NUL) row"





section \<open>A stub kernel\<close>

text \<open>
  A small library used to run the definitions on concrete inputs. It exports every entry
  point and length constant the wrapper uses and has seven variables: a rank-2 array of
  doubles, an integer scalar, an array of two fixed-width strings, a variable of a
  type the wrapper does not know, an integer array with a leading zero dimension, a string
  scalar and an integer array with a zero dimension between two others. Every entry point succeeds, but \<open>update\<close> and, the first time it is called,
  \<open>finalize\<close>. The buffers 5 and 6 of the memory belong to arrays of the host, the others
  to the variables.
\<close>

definition stub_variables :: "(string \<times> variable) list" where
  "stub_variables =
     [(''HEAD'', \<lparr>var_rank = 2, var_type = ''DOUBLE (3,2)'', var_shape = [2, 3],
                  var_nbytes = 48, var_addr = 0\<rparr>),
      (''MXITER'', \<lparr>var_rank = 0, var_type = ''INTEGER'', var_shape = [],
                    var_nbytes = 4, var_addr = 1\<rparr>),
      (''BOUNDNAME'', \<lparr>var_rank = 1, var_type = ''STRING LEN=4 (2)'', var_shape = [2],
                       var_nbytes = 8, var_addr = 2\<rparr>),
      (''FLAG'', \<lparr>var_rank = 1, var_type = ''LOGICAL (1)'', var_shape = [1],
                  var_nbytes = 4, var_addr = 3\<rparr>),
      (''IDOMAIN'', \<lparr>var_rank = 2, var_type = ''INTEGER (5,0)'', var_shape = [0, 5],
                     var_nbytes = 0, var_addr = 4\<rparr>),
      (''MODELNAME'', \<lparr>var_rank = 0, var_type = ''STRING LEN=8'', var_shape = [],
                       var_nbytes = 8, var_addr = 7\<rparr>),
      (''ICELLTYPE'', \<lparr>var_rank = 3, var_type = ''INTEGER (3,0,5)'', var_shape = [5, 0, 3],
                       var_nbytes = 0, var_addr = 8\<rparr>)]"

definition stub_status :: "string list \<Rightarrow> string \<Rightarrow> int" where
  "stub_status hist fname =
     (if fname = ''update'' then 1
      else if fname = ''finalize'' \<and> ''finalize'' \<notin> set hist then 1
      else 0)"

definition stub_library :: library where
  "stub_library =
     \<lparr>symbols = [''initialize'', ''initialize_mpi'', ''update'', ''finalize'',
                 ''get_component_name'', ''get_last_bmi_error'', ''get_input_item_count'',
                 ''get_output_item_count'', ''get_input_var_names'', ''get_output_var_names'',
                 ''get_var_type'', ''get_var_rank'', ''get_var_shape'', ''get_var_nbytes'',
                 ''get_value'', ''get_value_ptr'', ''set_value''],
      constants = [(''BMI_LENERRMESSAGE'', 16), (''BMI_LENCOMPONENTNAME'', 4),
                   (''BMI_LENVARADDRESS'', 8), (''BMI_LENVARTYPE'', 20)],
      status = stub_status,
      variables = stub_variables,
      component_name = ''GW'',
      last_bmi_error = ''no such file'',
      input_item_count = 2,
      input_var_names = ''HEAD'' @ replicate 4 NUL @ ''MXITER'' @ replicate 2 NUL,
      output_item_count = 0,
      output_var_names = []\<rparr>"

definition stub_memory :: memory where
  "stub_memory =
     [map char_of [1 ..< 49 :: nat],
      map char_of [25, 0, 0, 0 :: nat],
      ''ABC '' @ [NUL] @ ''WEL'' @ [NUL, NUL],
      map char_of [1, 0, 0, 0 :: nat],
      [],
      map char_of [101 ..< 149 :: nat],
      map char_of [7, 0, 0, 0 :: nat],
      ''GWF_1   '' @ [NUL],
      []]"

definition stub :: xmi where
  "stub =
     \<lparr>state = UNINITIALIZED, lib = stub_library, working_directory = ''sim'', timing = False,
      debug = False, cwd = ''home'', heap = stub_memory, uninit = (\<lambda>_. CHR ''?''),
      cast = (\<lambda>_ _ item. item), calls = [], logged = [], timer = []\<rparr>"

section \<open>Notions used in the statements and proofs\<close>

text \<open>
  Relations between the state before and after an action. \<open>quiet\<close>: nothing but the
  list of native calls has changed. \<open>same_object\<close>: the fields of the wrapper, the
  current directory and the parameters of the environment are the same. \<open>keeps F m\<close>:
  every run of \<open>m\<close> relates its start and end by \<open>F\<close>.
\<close>

definition quiet :: "xmi \<Rightarrow> xmi \<Rightarrow> bool" where
  "quiet s s' \<longleftrightarrow> state s' = state s \<and> lib s' = lib s \<and> working_directory s' = working_directory s
      \<and> timing s' = timing s \<and> debug s' = debug s \<and> cwd s' = cwd s \<and> heap s' = heap s
      \<and> uninit s' = uninit s \<and> cast s' = cast s \<and> logged s' = logged s \<and> timer s' = timer s"

definition keeps :: "(xmi \<Rightarrow> xmi \<Rightarrow> bool) \<Rightarrow> 'a action \<Rightarrow> bool" where
  "keeps F m \<longleftrightarrow> (\<forall>s r s'. m s = (r, s') \<longrightarrow> F s s')"

definition same_object :: "xmi \<Rightarrow> xmi \<Rightarrow> bool" where
  "same_object s s' \<longleftrightarrow> state s' = state s \<and> lib s' = lib s \<and> working_directory s' = working_directory s
      \<and> timing s' = timing s \<and> debug s' = debug s \<and> cwd s' = cwd s \<and> uninit s' = uninit s \<and> cast s' = cast s"

text \<open>The state in which \<open>_execute_function\<close> returns after a call with status 0.\<close>

definition completed :: "string \<Rightarrow> string list \<Rightarrow> memory \<Rightarrow> xmi \<Rightarrow> xmi" where
  "completed fname args h s =
     timer_stop fname (log_call fname args 0 ((timer_start fname s)\<lparr>heap := h, calls := calls s @ [fname]\<rparr>))"

text \<open>An entry point that the library exports and that always reports success.\<close>

definition answers :: "library \<Rightarrow> string \<Rightarrow> bool" where
  "answers l fname \<longleftrightarrow> fname \<in> set (symbols l) \<and> (\<forall>hist. status l hist fname = 0)"

text \<open>
  The stub after a successful \<open>initialize\<close>, and the stub with a kernel whose every
  entry point fails.
\<close>

definition stub_initialized :: xmi where
  "stub_initialized = snd (initialize [] stub)"

definition stub_failing :: xmi where
  "stub_failing = stub\<lparr>lib := stub_library\<lparr>status := (\<lambda>hist fname. 1)\<rparr>\<rparr>"

text \<open>
  The body that \<open>initialize\<close>, \<open>initialize_mpi\<close> and \<open>finalize\<close> run inside the
  working-directory scope: look the entry point up, run it, then set the state.
\<close>

definition transition :: "string \<Rightarrow> string list \<Rightarrow> State \<Rightarrow> unit action" where
  "transition fname args st =
     andthen (lib_function fname) (\<lambda>_.
     andthen (execute_function fname args None (native_plain fname)) (\<lambda>_. set_state st))"

text \<open>
  The stub with a kernel that has none of the error-text extras: it exports neither the
  constant \<open>BMI_LENERRMESSAGE\<close> nor the entry point \<open>get_last_bmi_error\<close>.
\<close>

definition stub_plain :: xmi where
  "stub_plain =
     stub\<lparr>lib := stub_library
            \<lparr>symbols := filter (\<lambda>f. f \<noteq> ''get_last_bmi_error'') (symbols stub_library),
             constants := filter (\<lambda>c. fst c \<noteq> ''BMI_LENERRMESSAGE'') (constants stub_library)\<rparr>\<rparr>"

text \<open>
  The library exports both length constants and both entry points of the failure path,
  and the two texts it reports are ASCII.
\<close>

definition diagnostics_available :: "library \<Rightarrow> bool" where
  "diagnostics_available l \<longleftrightarrow>
     (case (map_of (constants l) ''BMI_LENERRMESSAGE'', map_of (constants l) ''BMI_LENCOMPONENTNAME'') of
        (Some n, Some m) \<Rightarrow>
           0 \<le> n \<and> 0 \<le> m
           \<and> is_ascii (c_value (overwrite (last_bmi_error l) (replicate (nat n) NUL)))
           \<and> is_ascii (c_value (overwrite (component_name l) (replicate (nat m) NUL)))
      | _ \<Rightarrow> False)
     \<and> ''get_last_bmi_error'' \<in> set (symbols l) \<and> ''get_component_name'' \<in> set (symbols l)"

text \<open>\<^verbatim>\<open>part in text\<close>.\<close>

definition contains :: "string \<Rightarrow> string \<Rightarrow> bool" where
  "contains text part \<longleftrightarrow> (\<exists>before after. text = before @ part @ after)"

text \<open>
  The metadata of a variable as the wrapper can read it: the type string fits the buffer
  of \<open>BMI_LENVARTYPE\<close> bytes, holds no null byte and is ASCII, the rank is not negative
  and the shape has one entry per dimension.
\<close>

definition described :: "library \<Rightarrow> variable \<Rightarrow> bool" where
  "described l v \<longleftrightarrow>
     (case map_of (constants l) ''BMI_LENVARTYPE'' of
        Some n \<Rightarrow> int (length (var_type v)) \<le> n
      | None \<Rightarrow> False)
     \<and> NUL \<notin> set (var_type v) \<and> is_ascii (var_type v)
     \<and> 0 \<le> var_rank v \<and> length (var_shape v) = nat (var_rank v)"

text \<open>The type string begins with none of the keywords the wrapper knows.\<close>

definition unsupported :: "string \<Rightarrow> bool" where
  "unsupported ty \<longleftrightarrow>
     \<not> startswith (lower ty) ''double'' \<and> \<not> startswith (lower ty) ''float''
     \<and> \<not> startswith (lower ty) ''int'' \<and> \<not> startswith (lower ty) ''string''"

text \<open>
  The element type \<open>get_value_ptr\<close> and \<open>get_value_ptr_scalar\<close> choose for a type
  string.
\<close>

definition pointer_dtype :: "string \<Rightarrow> dtype option" where
  "pointer_dtype ty =
     (if startswith (lower ty) ''double'' then Some float64
      else if startswith (lower ty) ''float'' then Some float32
      else if startswith (lower ty) ''int'' then Some int32
      else None)"

text \<open>The element type \<open>get_value\<close> chooses for an array of rank 1 or more.\<close>

definition array_dtype :: "string \<Rightarrow> dtype option" where
  "array_dtype ty =
     (if startswith (lower ty) ''double'' then Some float64
      else if startswith (lower ty) ''int'' then Some int32
      else None)"



text \<open>
  \<open>grows\<close>: the library is the same and no buffer has gone. \<open>allocates m\<close>: an array
  that \<open>m\<close> returns lies in a buffer that came into being while \<open>m\<close> ran.
  \<open>hands_back d m\<close>: \<open>m\<close> returns the array \<open>d\<close> or raises. \<open>length_preserving\<close>: a
  native entry point that leaves the number of buffers alone.
\<close>

definition grows :: "xmi \<Rightarrow> xmi \<Rightarrow> bool" where
  "grows s s' \<longleftrightarrow> lib s' = lib s \<and> length (heap s) \<le> length (heap s')"




text \<open>
  \<open>still\<close>: the library and the memory are the same. \<open>heap_preserving\<close>: a native
  entry point that writes to no buffer. \<open>aliases name m\<close>: an array that \<open>m\<close> returns
  lies over the memory of the variable \<open>name\<close>, and \<open>m\<close> has changed no buffer.
\<close>

definition still :: "xmi \<Rightarrow> xmi \<Rightarrow> bool" where
  "still s s' \<longleftrightarrow> lib s' = lib s \<and> heap s' = heap s"


definition aliases :: "string \<Rightarrow> ndarray action \<Rightarrow> bool" where
  "aliases name m \<longleftrightarrow>
     (\<forall>s a s'. m s = (Inr a, s') \<longrightarrow>
        lib s' = lib s \<and> heap s' = heap s
        \<and> (\<exists>v. the_variable (lib s) name = Some v \<and> data a = var_addr v))"












section \<open>The invoker\<close>


lemma andthen_err: "m s = (Inl e, s1) \<Longrightarrow> andthen m f s = (Inl e, s1)"
  by (simp add: andthen_def)

lemma andthen_cases:
  assumes "andthen m f s = (r, s')"
  obtains (fail) e where "m s = (Inl e, s')" "r = Inl e"
  | (ok) a s1 where "m s = (Inr a, s1)" "f a s1 = (r, s')"
  using assms by (auto simp: andthen_def split: prod.splits sum.splits)

lemma quiet_refl: "quiet s s" by (simp add: quiet_def)

lemma quiet_trans: "quiet s t \<Longrightarrow> quiet t u \<Longrightarrow> quiet s u" by (simp add: quiet_def)

lemma keeps_quiet_lift: "keeps quiet (lift r)" by (simp add: keeps_def lift_def quiet_refl)

lemma keeps_quiet_ret: "keeps quiet (ret r)" by (simp add: keeps_def ret_def quiet_refl)

lemma keeps_quiet_andthen:
  assumes "keeps quiet m" and "\<And>a. keeps quiet (f a)"
  shows "keeps quiet (andthen m f)"
  unfolding keeps_def
proof (intro allI impI)
  fix s r s'
  assume "andthen m f s = (r, s')"
  then show "quiet s s'"
  proof (cases rule: andthen_cases)
    case (fail e)
    with assms(1) show ?thesis by (simp add: keeps_def)
  next
    case (ok a s1)
    with assms have "quiet s s1" and "quiet s1 s'" by (simp_all add: keeps_def)
    then show ?thesis by (rule quiet_trans)
  qed
qed

lemma keeps_quiet_get_constant_int: "keeps quiet (get_constant_int name)"
  by (auto simp: keeps_def get_constant_int_def quiet_refl split: option.splits)

lemma keeps_quiet_raw_call_error:
  "keeps quiet (raw_call ''get_last_bmi_error'' (native_get_last_bmi_error b))"
  by (auto simp: keeps_def raw_call_def andthen_def lib_function_def run_native_def
      native_get_last_bmi_error_def quiet_def split: if_splits)

lemma keeps_quiet_raw_call_name:
  "keeps quiet (raw_call ''get_component_name'' (native_get_component_name b))"
  by (auto simp: keeps_def raw_call_def andthen_def lib_function_def run_native_def
      native_get_component_name_def quiet_def split: if_splits)

lemma keeps_quiet_extract: "keeps quiet (extract_error_message detail)"
  unfolding extract_error_message_def Let_def
  by (intro keeps_quiet_andthen keeps_quiet_get_constant_int keeps_quiet_lift keeps_quiet_ret
        keeps_quiet_raw_call_error keeps_quiet_raw_call_name)

lemma bmi_exception_fails: "\<exists>e. fst (bmi_exception fname args detail s) = Inl e"
  by (simp add: bmi_exception_def Let_def split: prod.splits sum.splits error.splits)

lemma bmi_exception_frame:
  assumes "bmi_exception fname args detail s = (r, s')"
  shows "same_object s s' \<and> heap s' = heap s \<and> timer s' = timer s"
proof -
  obtain r1 s1 where ex: "extract_error_message detail s = (r1, s1)"
    by (cases "extract_error_message detail s")
  then have "quiet s s1"
    using keeps_quiet_extract by (simp add: keeps_def)
  then have "same_object s s1 \<and> heap s1 = heap s \<and> timer s1 = timer s"
    by (simp add: quiet_def same_object_def)
  moreover have "s' = s1 \<or> s' = log_error (''Couldn'' @ [quote] @ ''t extract error message'') s1"
    using assms ex by (auto simp: bmi_exception_def Let_def split: sum.splits error.splits)
  ultimately show ?thesis
    by (auto simp: same_object_def log_error_def)
qed

lemma completed_fields [simp]:
  "state (completed fname args h s) = state s"
  "lib (completed fname args h s) = lib s"
  "working_directory (completed fname args h s) = working_directory s"
  "timing (completed fname args h s) = timing s"
  "debug (completed fname args h s) = debug s"
  "cwd (completed fname args h s) = cwd s"
  "uninit (completed fname args h s) = uninit s"
  "cast (completed fname args h s) = cast s"
  "heap (completed fname args h s) = h"
  "calls (completed fname args h s) = calls s @ [fname]"
  by (simp_all add: completed_def timer_start_def timer_stop_def log_call_def)

lemma execute_function_success:
  assumes "function (lib s) (calls s) (heap s) = (0, out, h)"
  shows "execute_function fname args detail function s = (Inr out, completed fname args h s)"
proof -
  have "run_native fname function (timer_start fname s)
          = ((0, out), (timer_start fname s)\<lparr>heap := h, calls := calls s @ [fname]\<rparr>)"
    using assms by (simp add: run_native_def timer_start_def)
  then show ?thesis
    by (simp add: execute_function_def try_finally_def completed_def)
qed

lemma execute_function_failure:
  assumes "function (lib s) (calls s) (heap s) = (result, out, h)" and "result \<noteq> 0"
  shows "\<exists>e. fst (execute_function fname args detail function s) = Inl e"
proof -
  define s1 where "s1 = (timer_start fname s)\<lparr>heap := h, calls := calls s @ [fname]\<rparr>"
  have rn: "run_native fname function (timer_start fname s) = ((result, out), s1)"
    using assms by (simp add: run_native_def timer_start_def s1_def)
  obtain r3 s3 where b: "bmi_exception fname args detail (log_call fname args result s1) = (r3 :: error + 'a, s3)"
    by (metis prod.exhaust)
  have "\<exists>e. fst (bmi_exception fname args detail (log_call fname args result s1) :: (error + 'a) \<times> xmi) = Inl e"
    by (rule bmi_exception_fails)
  with b obtain e where "r3 = Inl e" by auto
  with rn b assms(2) show ?thesis
    by (simp add: execute_function_def try_finally_def)
qed

lemma execute_function_frame:
  assumes "execute_function fname args detail function s = (r, s')"
  shows "same_object s s'"
proof -
  obtain result out s1 where rn: "run_native fname function (timer_start fname s) = ((result, out), s1)"
    by (metis prod.exhaust)
  then have s1: "same_object s s1"
    by (auto simp: run_native_def timer_start_def same_object_def split: prod.splits if_splits)
  then have s2: "same_object s (log_call fname args result s1)"
    by (simp add: log_call_def same_object_def)
  show ?thesis
  proof (cases "result = 0")
    case True
    with assms rn have "s' = timer_stop fname (log_call fname args result s1)"
      by (simp add: execute_function_def try_finally_def)
    with s2 show ?thesis by (simp add: same_object_def timer_stop_def)
  next
    case False
    obtain r3 s3 where b: "bmi_exception fname args detail (log_call fname args result s1) = (r3 :: error + 'a, s3)"
      by (metis prod.exhaust)
    then have "same_object (log_call fname args result s1) s3"
      using bmi_exception_frame by blast
    with s2 have "same_object s s3" by (simp add: same_object_def)
    moreover from assms rn False b have "s' = timer_stop fname s3"
      by (simp add: execute_function_def try_finally_def)
    ultimately show ?thesis by (simp add: same_object_def timer_stop_def)
  qed
qed

lemma execute_function_plain_result:
  "(\<exists>e. fst (execute_function fname args detail (native_plain g) s) = Inl e) \<longleftrightarrow> status (lib s) (calls s) g \<noteq> 0"
proof (cases "status (lib s) (calls s) g = 0")
  case True
  then have "native_plain g (lib s) (calls s) (heap s) = (0, (), heap s)"
    by (simp add: native_plain_def)
  then show ?thesis using True by (simp add: execute_function_success)
next
  case False
  have "native_plain g (lib s) (calls s) (heap s) = (status (lib s) (calls s) g, (), heap s)"
    by (simp add: native_plain_def)
  then have "\<exists>e. fst (execute_function fname args detail (native_plain g) s) = Inl e"
    using False by (rule execute_function_failure)
  with False show ?thesis by simp
qed

section \<open>The lifecycle state machine\<close>

lemma lib_function_ok: "fname \<in> set (symbols (lib s)) \<Longrightarrow> lib_function fname s = (Inr (), s)"
  by (simp add: lib_function_def)

lemma lib_function_missing:
  "fname \<notin> set (symbols (lib s)) \<Longrightarrow> lib_function fname s = (Inl (AttributeError fname), s)"
  by (simp add: lib_function_def)

lemma cd_state: "state (snd (cd d body s)) = state (snd (body (s\<lparr>cwd := d\<rparr>)))"
  by (simp add: cd_def try_finally_def Let_def split: prod.splits)

lemma cd_result: "fst (cd d body s) = fst (body (s\<lparr>cwd := d\<rparr>))"
  by (simp add: cd_def try_finally_def Let_def split: prod.splits)

lemma cd_calls: "calls (snd (cd d body s)) = calls (snd (body (s\<lparr>cwd := d\<rparr>)))"
  by (simp add: cd_def try_finally_def Let_def split: prod.splits)

lemma transition_missing:
  "fname \<notin> set (symbols (lib s)) \<Longrightarrow> transition fname args st s = (Inl (AttributeError fname), s)"
  by (simp add: transition_def andthen_def lib_function_def)

lemma transition_success:
  assumes "fname \<in> set (symbols (lib s))" and "status (lib s) (calls s) fname = 0"
  shows "transition fname args st s = (Inr (), (completed fname args (heap s) s)\<lparr>state := st\<rparr>)"
proof -
  have "native_plain fname (lib s) (calls s) (heap s) = (0, (), heap s)"
    using assms(2) by (simp add: native_plain_def)
  then have "execute_function fname args None (native_plain fname) s
               = (Inr (), completed fname args (heap s) s)"
    by (rule execute_function_success)
  with assms(1) show ?thesis
    by (simp add: transition_def andthen_def lib_function_def set_state_def)
qed

lemma transition_failure:
  assumes "fname \<in> set (symbols (lib s))" and "status (lib s) (calls s) fname \<noteq> 0"
  shows "(\<exists>e. fst (transition fname args st s) = Inl e) \<and> state (snd (transition fname args st s)) = state s"
proof -
  obtain r s1 where ex: "execute_function fname args None (native_plain fname) s = (r :: error + unit, s1)"
    by (metis prod.exhaust)
  have "\<exists>e. fst (execute_function fname args None (native_plain fname) s) = Inl e"
    using assms(2) by (simp add: execute_function_plain_result)
  with ex obtain e where r: "r = Inl e" by auto
  from ex have "same_object s s1" by (rule execute_function_frame)
  with ex r assms(1) show ?thesis
    by (simp add: transition_def andthen_def lib_function_def same_object_def)
qed

lemma transition_changes_state:
  assumes "state (snd (transition fname args st s)) \<noteq> state s"
  shows "fst (transition fname args st s) = Inr () \<and> status (lib s) (calls s) fname = 0"
proof (cases "fname \<in> set (symbols (lib s))")
  case False
  with assms show ?thesis by (simp add: transition_missing)
next
  case True
  show ?thesis
  proof (cases "status (lib s) (calls s) fname = 0")
    case True
    with \<open>fname \<in> set (symbols (lib s))\<close> show ?thesis by (simp add: transition_success)
  next
    case False
    with \<open>fname \<in> set (symbols (lib s))\<close> assms transition_failure show ?thesis by blast
  qed
qed

lemma transition_cwd [simp]:
  "lib (s\<lparr>cwd := d\<rparr>) = lib s" "calls (s\<lparr>cwd := d\<rparr>) = calls s" "state (s\<lparr>cwd := d\<rparr>) = state s"
  by simp_all

lemma initialize_unfold:
  "state s = UNINITIALIZED \<Longrightarrow>
     initialize config_file s =
       cd (working_directory s) (transition ''initialize'' [''b'' @ py_repr config_file] INITIALIZED) s"
  by (simp add: initialize_def transition_def)

lemma initialize_mpi_unfold:
  "state s = UNINITIALIZED \<Longrightarrow>
     initialize_mpi val s =
       cd (working_directory s) (transition ''initialize_mpi'' [byref ''comm''] INITIALIZED) s"
  by (simp add: initialize_mpi_def transition_def)

lemma finalize_unfold:
  "state s = INITIALIZED \<Longrightarrow>
     finalize s = cd (working_directory s) (transition ''finalize'' [] UNINITIALIZED) s"
  by (simp add: finalize_def transition_def)

lemma initialize_rejected:
  "state s = INITIALIZED \<Longrightarrow>
     initialize config_file s = (Inl (InputError ''The library is already initialized''), s)"
  by (simp add: initialize_def raise_def)

lemma finalize_rejected:
  "state s = UNINITIALIZED \<Longrightarrow>
     finalize s = (Inl (InputError ''The library is not initialized yet''), s)"
  by (simp add: finalize_def raise_def)

lemma transition_result_state:
  assumes "fst (transition fname args st s) = Inr ()"
  shows "state (snd (transition fname args st s)) = st"
proof (cases "fname \<in> set (symbols (lib s))")
  case False
  with assms show ?thesis by (simp add: transition_missing)
next
  case True
  show ?thesis
  proof (cases "status (lib s) (calls s) fname = 0")
    case True
    with \<open>fname \<in> set (symbols (lib s))\<close> show ?thesis by (simp add: transition_success)
  next
    case False
    with \<open>fname \<in> set (symbols (lib s))\<close> assms transition_failure [of fname s args st]
    show ?thesis by auto
  qed
qed

text \<open>
  C3. In the state \<open>INITIALIZED\<close>, \<open>initialize\<close> raises \<open>InputError\<close> (the error the
  specification calls \<open>StateError\<close>) and returns the state it was given: no field has
  changed, so no native entry point was called. Hence an \<open>initialize\<close> that follows a
  successful one, with no \<open>finalize\<close> in between, is rejected. In the state
  \<open>UNINITIALIZED\<close>, \<open>finalize\<close> is rejected in the same way. An \<open>initialize\<close> that
  succeeds started in \<open>UNINITIALIZED\<close> and ends in \<open>INITIALIZED\<close>; a \<open>finalize\<close> that
  succeeds started in \<open>INITIALIZED\<close> and ends in \<open>UNINITIALIZED\<close>.
\<close>

theorem lifecycle_guards:
  "(state s = INITIALIZED \<longrightarrow>
      initialize config_file s = (Inl (InputError ''The library is already initialized''), s))
   \<and> (fst (initialize config_file s) = Inr () \<longrightarrow>
      state s = UNINITIALIZED \<and> state (snd (initialize config_file s)) = INITIALIZED
      \<and> initialize config_file' (snd (initialize config_file s))
          = (Inl (InputError ''The library is already initialized''), snd (initialize config_file s)))
   \<and> (state s = UNINITIALIZED \<longrightarrow>
      finalize s = (Inl (InputError ''The library is not initialized yet''), s))
   \<and> (fst (finalize s) = Inr () \<longrightarrow>
      state s = INITIALIZED \<and> state (snd (finalize s)) = UNINITIALIZED)"
proof (intro conjI impI)
  assume "state s = INITIALIZED"
  then show "initialize config_file s = (Inl (InputError ''The library is already initialized''), s)"
    by (rule initialize_rejected)
next
  assume ok: "fst (initialize config_file s) = Inr ()"
  show u: "state s = UNINITIALIZED"
  proof (cases "state s")
    case INITIALIZED
    with ok show ?thesis by (simp add: initialize_rejected)
  qed simp
  from ok u show i: "state (snd (initialize config_file s)) = INITIALIZED"
    by (simp add: initialize_unfold cd_state cd_result transition_result_state)
  then show "initialize config_file' (snd (initialize config_file s))
          = (Inl (InputError ''The library is already initialized''), snd (initialize config_file s))"
    by (rule initialize_rejected)
next
  assume "state s = UNINITIALIZED"
  then show "finalize s = (Inl (InputError ''The library is not initialized yet''), s)"
    by (rule finalize_rejected)
next
  assume ok: "fst (finalize s) = Inr ()"
  show u: "state s = INITIALIZED"
  proof (cases "state s")
    case UNINITIALIZED
    with ok show ?thesis by (simp add: finalize_rejected)
  qed simp
  from ok u show "state (snd (finalize s)) = UNINITIALIZED"
    by (simp add: finalize_unfold cd_state cd_result transition_result_state)
qed

lemma stub_initialize: "fst (initialize [] stub) = Inr ()"
  by code_simp

lemma stub_finalize_retry:
  "state (snd (finalize stub_initialized)) = INITIALIZED
   \<and> fst (finalize (snd (finalize stub_initialized))) = Inr ()"
  unfolding stub_initialized_def by code_simp

theorem lifecycle_guards_witness:
  "fst (initialize [] stub) = Inr ()
   \<and> state (snd (initialize [] stub)) = INITIALIZED
   \<and> initialize ''mfsim.nam'' (snd (initialize [] stub))
       = (Inl (InputError ''The library is already initialized''), snd (initialize [] stub))
   \<and> finalize stub = (Inl (InputError ''The library is not initialized yet''), stub)
   \<and> fst (finalize (snd (finalize stub_initialized))) = Inr ()
   \<and> state (snd (finalize (snd (finalize stub_initialized)))) = UNINITIALIZED"
proof -
  have "state stub = UNINITIALIZED" by (simp add: stub_def)
  then show ?thesis
    using lifecycle_guards [of stub "[]" "''mfsim.nam''"]
      lifecycle_guards [of "snd (finalize stub_initialized)" "[]" "[]"]
      stub_initialize stub_finalize_retry
    by simp
qed

text \<open>
  C10. When the native \<open>initialize\<close> (or \<open>initialize_mpi\<close>) entry point returns a
  nonzero status, the call raises and the state is still \<open>UNINITIALIZED\<close>; when the
  native \<open>finalize\<close> returns a nonzero status, the call raises and the state is still
  \<open>INITIALIZED\<close>. A call that changes the state has returned normally, after a native
  call with status 0.
\<close>

theorem lifecycle_atomic:
  "(state s = UNINITIALIZED \<and> ''initialize'' \<in> set (symbols (lib s))
      \<and> status (lib s) (calls s) ''initialize'' \<noteq> 0 \<longrightarrow>
      (\<exists>e. fst (initialize config_file s) = Inl e)
      \<and> state (snd (initialize config_file s)) = UNINITIALIZED)
   \<and> (state s = UNINITIALIZED \<and> ''initialize_mpi'' \<in> set (symbols (lib s))
      \<and> status (lib s) (calls s) ''initialize_mpi'' \<noteq> 0 \<longrightarrow>
      (\<exists>e. fst (initialize_mpi val s) = Inl e)
      \<and> state (snd (initialize_mpi val s)) = UNINITIALIZED)
   \<and> (state s = INITIALIZED \<and> ''finalize'' \<in> set (symbols (lib s))
      \<and> status (lib s) (calls s) ''finalize'' \<noteq> 0 \<longrightarrow>
      (\<exists>e. fst (finalize s) = Inl e) \<and> state (snd (finalize s)) = INITIALIZED)
   \<and> (state (snd (initialize config_file s)) \<noteq> state s \<longrightarrow>
      fst (initialize config_file s) = Inr () \<and> status (lib s) (calls s) ''initialize'' = 0)
   \<and> (state (snd (initialize_mpi val s)) \<noteq> state s \<longrightarrow>
      fst (initialize_mpi val s) = Inr () \<and> status (lib s) (calls s) ''initialize_mpi'' = 0)
   \<and> (state (snd (finalize s)) \<noteq> state s \<longrightarrow>
      fst (finalize s) = Inr () \<and> status (lib s) (calls s) ''finalize'' = 0)"
proof (intro conjI impI)
  assume "state s = UNINITIALIZED \<and> ''initialize'' \<in> set (symbols (lib s))
      \<and> status (lib s) (calls s) ''initialize'' \<noteq> 0"
  then show "\<exists>e. fst (initialize config_file s) = Inl e"
    and "state (snd (initialize config_file s)) = UNINITIALIZED"
    using transition_failure [of "''initialize''" "s\<lparr>cwd := working_directory s\<rparr>"]
    by (simp_all add: initialize_unfold cd_state cd_result)
next
  assume "state s = UNINITIALIZED \<and> ''initialize_mpi'' \<in> set (symbols (lib s))
      \<and> status (lib s) (calls s) ''initialize_mpi'' \<noteq> 0"
  then show "\<exists>e. fst (initialize_mpi val s) = Inl e"
    and "state (snd (initialize_mpi val s)) = UNINITIALIZED"
    using transition_failure [of "''initialize_mpi''" "s\<lparr>cwd := working_directory s\<rparr>"]
    by (simp_all add: initialize_mpi_unfold cd_state cd_result)
next
  assume "state s = INITIALIZED \<and> ''finalize'' \<in> set (symbols (lib s))
      \<and> status (lib s) (calls s) ''finalize'' \<noteq> 0"
  then show "\<exists>e. fst (finalize s) = Inl e"
    and "state (snd (finalize s)) = INITIALIZED"
    using transition_failure [of "''finalize''" "s\<lparr>cwd := working_directory s\<rparr>"]
    by (simp_all add: finalize_unfold cd_state cd_result)
next
  assume ch: "state (snd (initialize config_file s)) \<noteq> state s"
  then have "state s = UNINITIALIZED"
    by (cases "state s") (simp_all add: initialize_rejected)
  with ch show "fst (initialize config_file s) = Inr ()"
    and "status (lib s) (calls s) ''initialize'' = 0"
    using transition_changes_state [of "''initialize''" _ INITIALIZED "s\<lparr>cwd := working_directory s\<rparr>"]
    by (simp_all add: initialize_unfold cd_state cd_result)
next
  assume ch: "state (snd (initialize_mpi val s)) \<noteq> state s"
  then have "state s = UNINITIALIZED"
    by (cases "state s") (simp_all add: initialize_mpi_def raise_def)
  with ch show "fst (initialize_mpi val s) = Inr ()"
    and "status (lib s) (calls s) ''initialize_mpi'' = 0"
    using transition_changes_state [of "''initialize_mpi''" _ INITIALIZED "s\<lparr>cwd := working_directory s\<rparr>"]
    by (simp_all add: initialize_mpi_unfold cd_state cd_result)
next
  assume ch: "state (snd (finalize s)) \<noteq> state s"
  then have "state s = INITIALIZED"
    by (cases "state s") (simp_all add: finalize_rejected)
  with ch show "fst (finalize s) = Inr ()"
    and "status (lib s) (calls s) ''finalize'' = 0"
    using transition_changes_state [of "''finalize''" _ UNINITIALIZED "s\<lparr>cwd := working_directory s\<rparr>"]
    by (simp_all add: finalize_unfold cd_state cd_result)
qed

lemma stub_failing_facts:
  "state stub_failing = UNINITIALIZED"
  "''initialize'' \<in> set (symbols (lib stub_failing))"
  "status (lib stub_failing) (calls stub_failing) ''initialize'' = 1"
  "''initialize_mpi'' \<in> set (symbols (lib stub_failing))"
  "status (lib stub_failing) (calls stub_failing) ''initialize_mpi'' = 1"
  by (simp_all add: stub_failing_def stub_def stub_library_def)

lemma stub_initialized_facts:
  "state stub_initialized = INITIALIZED"
  "''finalize'' \<in> set (symbols (lib stub_initialized))"
  "status (lib stub_initialized) (calls stub_initialized) ''finalize'' = 1"
  unfolding stub_initialized_def by code_simp+

theorem lifecycle_atomic_witness:
  "(\<exists>e. fst (initialize [] stub_failing) = Inl e)
   \<and> state (snd (initialize [] stub_failing)) = UNINITIALIZED
   \<and> (\<exists>e. fst (initialize_mpi 0 stub_failing) = Inl e)
   \<and> state (snd (initialize_mpi 0 stub_failing)) = UNINITIALIZED
   \<and> (\<exists>e. fst (finalize stub_initialized) = Inl e)
   \<and> state (snd (finalize stub_initialized)) = INITIALIZED
   \<and> state (snd (initialize [] stub)) \<noteq> state stub
   \<and> fst (initialize [] stub) = Inr ()
   \<and> status (lib stub) (calls stub) ''initialize'' = 0"
proof -
  have "state (snd (initialize [] stub)) \<noteq> state stub" by code_simp
  then show ?thesis
    using lifecycle_atomic [of stub_failing "[]" 0] lifecycle_atomic [of stub_initialized "[]" 0]
      lifecycle_atomic [of stub "[]" 0] stub_failing_facts stub_initialized_facts
    by simp
qed

text \<open>
  C9, as amended. The teardown of the wrapper never raises: what leaves \<open>__del__\<close> is
  reported by the interpreter and dropped. In the state \<open>UNINITIALIZED\<close> the teardown
  calls nothing and reports nothing. In the state \<open>INITIALIZED\<close> it runs \<open>finalize\<close>:
  when the native \<open>finalize\<close> succeeds nothing is reported and the state becomes
  \<open>UNINITIALIZED\<close>; when it returns a nonzero status the error of \<open>finalize\<close> is what
  the interpreter reports, and the state stays \<open>INITIALIZED\<close>. The wrapper is left as
  \<open>finalize\<close> left it: \<open>__del__\<close> has no handler and hands nothing to the logger.
\<close>

theorem teardown_best_effort:
  "(state s = UNINITIALIZED \<longrightarrow> teardown s = (None, s))
   \<and> (state s = INITIALIZED \<and> ''finalize'' \<in> set (symbols (lib s))
      \<and> status (lib s) (calls s) ''finalize'' = 0 \<longrightarrow>
      fst (teardown s) = None \<and> state (snd (teardown s)) = UNINITIALIZED
      \<and> calls (snd (teardown s)) = calls s @ [''finalize''])
   \<and> (state s = INITIALIZED \<and> ''finalize'' \<in> set (symbols (lib s))
      \<and> status (lib s) (calls s) ''finalize'' \<noteq> 0 \<longrightarrow>
      (\<exists>e. fst (finalize s) = Inl e \<and> fst (teardown s) = Some e)
      \<and> state (snd (teardown s)) = INITIALIZED)
   \<and> (state s = INITIALIZED \<longrightarrow> snd (teardown s) = snd (finalize s))"
proof (intro conjI impI)
  assume "state s = UNINITIALIZED"
  then show "teardown s = (None, s)" by (simp add: teardown_def del_def)
next
  assume h: "state s = INITIALIZED \<and> ''finalize'' \<in> set (symbols (lib s))
      \<and> status (lib s) (calls s) ''finalize'' = 0"
  then have "transition ''finalize'' [] UNINITIALIZED (s\<lparr>cwd := working_directory s\<rparr>)
      = (Inr (), (completed ''finalize'' [] (heap s) (s\<lparr>cwd := working_directory s\<rparr>))\<lparr>state := UNINITIALIZED\<rparr>)"
    using transition_success [of "''finalize''" "s\<lparr>cwd := working_directory s\<rparr>" "[]" UNINITIALIZED]
    by simp
  with h have fin: "fst (finalize s) = Inr ()" "state (snd (finalize s)) = UNINITIALIZED"
    "calls (snd (finalize s)) = calls s @ [''finalize'']"
    by (simp_all add: finalize_unfold cd_state cd_result cd_calls)
  obtain r s' where f: "finalize s = (r, s')" by (cases "finalize s")
  with fin h show "fst (teardown s) = None" and "state (snd (teardown s)) = UNINITIALIZED"
    and "calls (snd (teardown s)) = calls s @ [''finalize'']"
    by (simp_all add: teardown_def del_def)
next
  assume h: "state s = INITIALIZED \<and> ''finalize'' \<in> set (symbols (lib s))
      \<and> status (lib s) (calls s) ''finalize'' \<noteq> 0"
  then have "\<exists>e. fst (finalize s) = Inl e" and st: "state (snd (finalize s)) = INITIALIZED"
    using transition_failure [of "''finalize''" "s\<lparr>cwd := working_directory s\<rparr>"]
    by (simp_all add: finalize_unfold cd_state cd_result)
  then obtain e where e: "fst (finalize s) = Inl e" by blast
  obtain r s' where f: "finalize s = (r, s')" by (cases "finalize s")
  with e st h have "fst (teardown s) = Some e" and "state (snd (teardown s)) = INITIALIZED"
    by (simp_all add: teardown_def del_def)
  with e show "\<exists>e. fst (finalize s) = Inl e \<and> fst (teardown s) = Some e"
    and "state (snd (teardown s)) = INITIALIZED"
    by blast+
next
  assume "state s = INITIALIZED"
  then show "snd (teardown s) = snd (finalize s)"
    by (simp add: teardown_def del_def split: prod.splits sum.splits)
qed

lemma stub_retry_facts:
  "state (snd (finalize stub_initialized)) = INITIALIZED"
  "''finalize'' \<in> set (symbols (lib (snd (finalize stub_initialized))))"
  "status (lib (snd (finalize stub_initialized))) (calls (snd (finalize stub_initialized))) ''finalize'' = 0"
  unfolding stub_initialized_def by code_simp+

theorem teardown_best_effort_witness:
  "teardown stub = (None, stub)
   \<and> fst (teardown (snd (finalize stub_initialized))) = None
   \<and> state (snd (teardown (snd (finalize stub_initialized)))) = UNINITIALIZED
   \<and> (\<exists>e. fst (finalize stub_initialized) = Inl e \<and> fst (teardown stub_initialized) = Some e)
   \<and> state (snd (teardown stub_initialized)) = INITIALIZED
   \<and> snd (teardown stub_initialized) = snd (finalize stub_initialized)"
proof -
  have "state stub = UNINITIALIZED" by (simp add: stub_def)
  then have fresh: "teardown stub = (None, stub)"
    using teardown_best_effort [of stub] by blast
  have retry: "fst (teardown (snd (finalize stub_initialized))) = None
      \<and> state (snd (teardown (snd (finalize stub_initialized)))) = UNINITIALIZED"
    using teardown_best_effort [of "snd (finalize stub_initialized)"] stub_retry_facts by blast
  have "status (lib stub_initialized) (calls stub_initialized) ''finalize'' \<noteq> 0"
    by (simp add: stub_initialized_facts)
  then have failing: "(\<exists>e. fst (finalize stub_initialized) = Inl e \<and> fst (teardown stub_initialized) = Some e)
      \<and> state (snd (teardown stub_initialized)) = INITIALIZED
      \<and> snd (teardown stub_initialized) = snd (finalize stub_initialized)"
    using teardown_best_effort [of stub_initialized] stub_initialized_facts(1,2) by blast
  from fresh retry failing show ?thesis by blast
qed

text \<open>
  C9, as stated, fails in one point: the error of the automatic \<open>finalize\<close> is not
  logged. The stub kernel's \<open>finalize\<close> returns status 1 the first time it is called.
  Tearing the initialized wrapper down, \<open>finalize\<close> raises its \<open>XMIError\<close>, the
  interpreter reports it and drops it, the state is still \<open>INITIALIZED\<close>, and the logger
  of the wrapper has received nothing.
\<close>

theorem teardown_error_not_logged:
  "state stub_initialized = INITIALIZED
   \<and> logged stub_initialized = []
   \<and> fst (finalize stub_initialized) =
       Inl (XMIError (''BMI exception in finalize(): Message from GW '' @ [quote]
                       @ ''no such file'' @ [quote]))
   \<and> fst (teardown stub_initialized) =
       Some (XMIError (''BMI exception in finalize(): Message from GW '' @ [quote]
                       @ ''no such file'' @ [quote]))
   \<and> logged (snd (teardown stub_initialized)) = []
   \<and> state (snd (teardown stub_initialized)) = INITIALIZED"
  unfolding stub_initialized_def
  by code_simp

section \<open>Failure of a native call\<close>

lemma contains_fname: "contains (''BMI exception in '' @ repr_function_call fname args @ rest) fname"
  unfolding contains_def repr_function_call_def
  by (rule exI [of _ "''BMI exception in ''"], rule exI [of _ "''('' @ join_args args @ '')'' @ rest"]) simp

lemma extract_error_message_available:
  assumes "diagnostics_available (lib s)"
  shows "\<exists>text. extract_error_message detail s
           = (Inr text, s\<lparr>calls := calls s @ [''get_last_bmi_error'', ''get_component_name'']\<rparr>)"
proof -
  from assms obtain n m where c: "map_of (constants (lib s)) ''BMI_LENERRMESSAGE'' = Some n"
      "map_of (constants (lib s)) ''BMI_LENCOMPONENTNAME'' = Some m" "0 \<le> n" "0 \<le> m"
      "is_ascii (c_value (overwrite (last_bmi_error (lib s)) (replicate (nat n) NUL)))"
      "is_ascii (c_value (overwrite (component_name (lib s)) (replicate (nat m) NUL)))"
      "''get_last_bmi_error'' \<in> set (symbols (lib s))" "''get_component_name'' \<in> set (symbols (lib s))"
    by (auto simp: diagnostics_available_def split: option.splits)
  then show ?thesis
    by (simp add: extract_error_message_def andthen_def get_constant_int_def lift_def
        create_string_buffer_def raw_call_def lib_function_def run_native_def
        native_get_last_bmi_error_def native_get_component_name_def decode_def ret_def Let_def)
qed

lemma extract_error_message_missing_function:
  assumes "map_of (constants (lib s)) ''BMI_LENERRMESSAGE'' = Some n" and "0 \<le> n"
    and "''get_last_bmi_error'' \<notin> set (symbols (lib s))"
  shows "extract_error_message detail s = (Inl (AttributeError ''get_last_bmi_error''), s)"
  using assms
  by (simp add: extract_error_message_def andthen_def get_constant_int_def lift_def
        create_string_buffer_def raw_call_def lib_function_def)

lemma extract_error_message_missing_constant:
  assumes "map_of (constants (lib s)) ''BMI_LENERRMESSAGE'' = None"
  shows "extract_error_message detail s = (Inl (ValueError ''BMI_LENERRMESSAGE''), s)"
  using assms
  by (simp add: extract_error_message_def andthen_def get_constant_int_def)

lemma execute_function_nonzero:
  assumes "func (lib s) (calls s) (heap s) = (result, out, h)" and "result \<noteq> 0"
  shows "execute_function fname args detail func s =
           (case bmi_exception fname args detail
                   (log_call fname args result ((timer_start fname s)\<lparr>heap := h, calls := calls s @ [fname]\<rparr>))
            of (r, s') \<Rightarrow> (r, timer_stop fname s'))"
proof -
  have "run_native fname func (timer_start fname s)
          = ((result, out), (timer_start fname s)\<lparr>heap := h, calls := calls s @ [fname]\<rparr>)"
    using assms by (simp add: run_native_def timer_start_def)
  with assms(2) show ?thesis
    by (simp add: execute_function_def try_finally_def)
qed

text \<open>
  What holds of the failure path. With the diagnostic symbols in place a nonzero status
  raises \<open>XMIError\<close> with a message that contains the entry point's name; when the
  length constant is there and \<open>get_last_bmi_error\<close> is missing, the handler logs the
  failure and \<open>XMIError\<close> is raised with the message built so far.
\<close>

lemma invoker_reports_failure:
  assumes "func (lib s) (calls s) (heap s) = (result, out, h)" and "result \<noteq> 0"
    and "diagnostics_available (lib s)"
  shows "\<exists>msg. fst (execute_function fname args detail func s) = Inl (XMIError msg)
               \<and> contains msg fname"
proof -
  define s2 where "s2 = log_call fname args result ((timer_start fname s)\<lparr>heap := h, calls := calls s @ [fname]\<rparr>)"
  have "lib s2 = lib s" by (simp add: s2_def log_call_def timer_start_def)
  with assms(3) obtain extra where
    "extract_error_message detail s2
       = (Inr extra, s2\<lparr>calls := calls s2 @ [''get_last_bmi_error'', ''get_component_name'']\<rparr>)"
    using extract_error_message_available [of s2 detail] by auto
  then have "fst (bmi_exception fname args detail s2 :: (error + 'a) \<times> xmi)
     = Inl (XMIError (''BMI exception in '' @ repr_function_call fname args @ extra))"
    by (simp add: bmi_exception_def)
  then have "fst (execute_function fname args detail func s)
     = Inl (XMIError (''BMI exception in '' @ repr_function_call fname args @ extra))"
    using execute_function_nonzero [where func = func and s = s and fname = fname and args = args and detail = detail, OF assms(1,2)]
    by (simp add: s2_def split: prod.splits)
  then show ?thesis using contains_fname by blast
qed

lemma invoker_missing_entry_point:
  assumes "func (lib s) (calls s) (heap s) = (result, out, h)" and "result \<noteq> 0"
    and "map_of (constants (lib s)) ''BMI_LENERRMESSAGE'' = Some n" and "0 \<le> n"
    and "''get_last_bmi_error'' \<notin> set (symbols (lib s))"
  shows "fst (execute_function fname args detail func s)
           = Inl (XMIError (''BMI exception in '' @ repr_function_call fname args))
         \<and> last (logged (snd (execute_function fname args detail func s)))
           = Error (''Couldn'' @ [quote] @ ''t extract error message'')"
proof -
  define s2 where "s2 = log_call fname args result ((timer_start fname s)\<lparr>heap := h, calls := calls s @ [fname]\<rparr>)"
  have "lib s2 = lib s" by (simp add: s2_def log_call_def timer_start_def)
  with assms(3-5) have "extract_error_message detail s2 = (Inl (AttributeError ''get_last_bmi_error''), s2)"
    using extract_error_message_missing_function [of s2 n detail] by simp
  then have "bmi_exception fname args detail s2
     = (Inl (XMIError (''BMI exception in '' @ repr_function_call fname args)) :: error + 'a,
        log_error (''Couldn'' @ [quote] @ ''t extract error message'') s2)"
    by (simp add: bmi_exception_def)
  then show ?thesis
    using execute_function_nonzero [where func = func and s = s and fname = fname and args = args and detail = detail, OF assms(1,2)]
    by (simp add: s2_def log_error_def timer_stop_def)
qed

lemma invoker_missing_constant:
  assumes "func (lib s) (calls s) (heap s) = (result, out, h)" and "result \<noteq> 0"
    and "map_of (constants (lib s)) ''BMI_LENERRMESSAGE'' = None"
  shows "fst (execute_function fname args detail func s) = Inl (ValueError ''BMI_LENERRMESSAGE'')"
proof -
  define s2 where "s2 = log_call fname args result ((timer_start fname s)\<lparr>heap := h, calls := calls s @ [fname]\<rparr>)"
  have "lib s2 = lib s" by (simp add: s2_def log_call_def timer_start_def)
  with assms(3) have "extract_error_message detail s2 = (Inl (ValueError ''BMI_LENERRMESSAGE''), s2)"
    using extract_error_message_missing_constant [of s2 detail] by simp
  then have "bmi_exception fname args detail s2
     = (Inl (ValueError ''BMI_LENERRMESSAGE'') :: error + 'a, s2)"
    by (simp add: bmi_exception_def)
  then show ?thesis
    using execute_function_nonzero [where func = func and s = s and fname = fname and args = args and detail = detail, OF assms(1,2)]
    by (simp add: s2_def)
qed

text \<open>
  C4. The claim fails on the code. \<^verbatim>\<open>c_int.in_dll\<close> raises \<open>ValueError\<close> for a data
  symbol that the library does not export, and the handler of the inner \<^verbatim>\<open>try\<close> catches
  \<open>AttributeError\<close> only. With a kernel that lacks \<open>BMI_LENERRMESSAGE\<close>, an entry
  point that returns status 1 makes \<open>_execute_function\<close> raise that \<open>ValueError\<close>:
  no \<open>XMIError\<close> naming the entry point is raised and nothing is logged.
\<close>

theorem invoker_masks_error:
  "''update'' \<in> set (symbols (lib stub_plain))
   \<and> status (lib stub_plain) (calls stub_plain) ''update'' = 1
   \<and> fst (execute_function ''update'' [] None (native_plain ''update'') stub_plain)
       = Inl (ValueError ''BMI_LENERRMESSAGE'')
   \<and> logged (snd (execute_function ''update'' [] None (native_plain ''update'') stub_plain)) = []"
  unfolding stub_plain_def
  by code_simp

section \<open>Reading the metadata of a variable\<close>

lemma overwrite_replicate:
  "length xs \<le> n \<Longrightarrow> overwrite xs (replicate n z) = xs @ replicate (n - length xs) z"
  by (simp add: overwrite_def)

lemma c_value_padded: "NUL \<notin> set xs \<Longrightarrow> c_value (xs @ replicate k NUL) = xs"
  by (induction xs) (auto simp: c_value_def)

lemma var_status_ok:
  "answers l fname \<Longrightarrow> the_variable l name = Some v \<Longrightarrow> var_status l hist fname name = 0"
  by (simp add: answers_def var_status_def the_variable_def)

lemma get_var_rank_ok:
  assumes "answers (lib s) ''get_var_rank''" and "the_variable (lib s) name = Some v"
  shows "get_var_rank name s
           = (Inr (var_rank v), completed ''get_var_rank'' [c_char_p name, byref ''rank''] (heap s) s)"
proof -
  have "native_get_var_rank name (lib s) (calls s) (heap s) = (0, var_rank v, heap s)"
    using assms by (simp add: native_get_var_rank_def var_status_ok)
  then have "execute_function ''get_var_rank'' [c_char_p name, byref ''rank''] None
               (native_get_var_rank name) s
             = (Inr (var_rank v), completed ''get_var_rank'' [c_char_p name, byref ''rank''] (heap s) s)"
    by (rule execute_function_success)
  with assms(1) show ?thesis
    by (simp add: get_var_rank_def andthen_def lib_function_def answers_def)
qed


lemma get_var_type_ok:
  assumes "answers (lib s) ''get_var_type''" and "the_variable (lib s) name = Some v"
    and "described (lib s) v"
  shows "get_var_type name s
           = (Inr (var_type v),
              completed ''get_var_type'' [c_char_p name, byref ''var_type''] (heap s) s)"
proof -
  from assms(3) obtain n where n: "map_of (constants (lib s)) ''BMI_LENVARTYPE'' = Some n"
      "int (length (var_type v)) \<le> n" "NUL \<notin> set (var_type v)" "is_ascii (var_type v)"
    by (auto simp: described_def split: option.splits)
  then have len: "length (var_type v) \<le> nat n" and pos: "\<not> n < 0" by auto
  have buf: "overwrite (var_type v) (replicate (nat n) NUL)
               = var_type v @ replicate (nat n - length (var_type v)) NUL"
    using len by (rule overwrite_replicate)
  have "native_get_var_type name (replicate (nat n) NUL) (lib s) (calls s) (heap s)
          = (0, var_type v @ replicate (nat n - length (var_type v)) NUL, heap s)"
    using assms(1,2) buf by (simp add: native_get_var_type_def var_status_ok)
  then have "execute_function ''get_var_type'' [c_char_p name, byref ''var_type''] None
               (native_get_var_type name (replicate (nat n) NUL)) s
             = (Inr (var_type v @ replicate (nat n - length (var_type v)) NUL),
                completed ''get_var_type'' [c_char_p name, byref ''var_type''] (heap s) s)"
    by (rule execute_function_success)
  with assms(1) n pos show ?thesis
    by (simp add: get_var_type_def andthen_def lib_function_def answers_def get_constant_int_def
        lift_def create_string_buffer_def c_value_padded decode_def)
qed

lemma get_var_shape_ok:
  assumes "answers (lib s) ''get_var_rank''" and "answers (lib s) ''get_var_shape''"
    and "the_variable (lib s) name = Some v" and "described (lib s) v"
  shows "get_var_shape name s
           = (Inr (var_shape v),
              completed ''get_var_shape'' [c_char_p name, ''c_void_p(array)''] (heap s)
                (completed ''get_var_rank'' [c_char_p name, byref ''rank''] (heap s) s))"
proof -
  define s1 where "s1 = completed ''get_var_rank'' [c_char_p name, byref ''rank''] (heap s) s"
  from assms(4) have r: "\<not> var_rank v < 0" "length (var_shape v) = nat (var_rank v)"
    by (simp_all add: described_def)
  have rank: "get_var_rank name s = (Inr (var_rank v), s1)"
    unfolding s1_def using assms(1,3) by (rule get_var_rank_ok)
  have "overwrite (var_shape v) (replicate (nat (var_rank v)) 0) = var_shape v"
    using r(2) by (simp add: overwrite_def)
  then have "native_get_var_shape name (replicate (nat (var_rank v)) 0) (lib s1) (calls s1) (heap s1)
          = (0, var_shape v, heap s1)"
    using assms(2,3) by (simp add: native_get_var_shape_def var_status_ok s1_def)
  then have "execute_function ''get_var_shape'' [c_char_p name, ''c_void_p(array)''] None
               (native_get_var_shape name (replicate (nat (var_rank v)) 0)) s1
             = (Inr (var_shape v), completed ''get_var_shape'' [c_char_p name, ''c_void_p(array)''] (heap s1) s1)"
    by (rule execute_function_success)
  moreover have "lib_function ''get_var_shape'' s1 = (Inr (), s1)"
    using assms(2) by (simp add: lib_function_def answers_def s1_def)
  ultimately show ?thesis
    using rank r(1) by (simp add: get_var_shape_def andthen_def np_zeros_def lift_def s1_def)
qed

section \<open>Checks made before a value is transferred\<close>

lemma get_value_ptr_scalar_unsupported:
  assumes "answers (lib s) ''get_var_type''" and "the_variable (lib s) name = Some v"
    and "described (lib s) v" and "unsupported (var_type v)"
  shows "get_value_ptr_scalar name s
           = (Inl (InputError (''Unsupported value type '' @ py_repr (var_type v))),
              completed ''get_var_type'' [c_char_p name, byref ''var_type''] (heap s) s)"
  using assms(4) get_var_type_ok [OF assms(1-3)]
  by (simp add: get_value_ptr_scalar_def andthen_def Let_def raise_def unsupported_def)

lemma get_value_unsupported:
  assumes "the_variable (lib s) name = Some v" and "described (lib s) v"
    and "answers (lib s) ''get_var_rank''" and "answers (lib s) ''get_var_type''"
    and "answers (lib s) ''get_var_shape''" and "unsupported (var_type v)"
    and "case dest of Some d \<Rightarrow> c_contiguous d | None \<Rightarrow> True"
  shows "fst (get_value name dest s)
           = Inl (InputError (''Unsupported value type '' @ py_repr (var_type v)))
         \<and> calls (snd (get_value name dest s))
           = calls s @ (if var_rank v = 0 then [''get_var_rank'', ''get_var_type'', ''get_var_type'']
                        else [''get_var_rank'', ''get_var_type'', ''get_var_rank'', ''get_var_shape''])"
proof -
  define s1 where "s1 = completed ''get_var_rank'' [c_char_p name, byref ''rank''] (heap s) s"
  define s2 where "s2 = completed ''get_var_type'' [c_char_p name, byref ''var_type''] (heap s1) s1"
  have l1: "lib s1 = lib s" and l2: "lib s2 = lib s" by (simp_all add: s1_def s2_def)
  have rank: "get_var_rank name s = (Inr (var_rank v), s1)"
    unfolding s1_def using assms(3,1) by (rule get_var_rank_ok)
  have type: "get_var_type name s1 = (Inr (var_type v), s2)"
    unfolding s2_def using assms(1,2,4) get_var_type_ok [of s1 name v] by (simp add: l1)
  have contiguous: "\<not> (case dest of Some d \<Rightarrow> \<not> c_contiguous d | None \<Rightarrow> False)"
    using assms(7) by (cases dest) simp_all
  have kw: "\<not> startswith (lower (var_type v)) ''double''" "\<not> startswith (lower (var_type v)) ''int''"
      "\<not> startswith (lower (var_type v)) ''string''"
    using assms(6) by (simp_all add: unsupported_def)
  show ?thesis
  proof (cases "var_rank v = 0")
    case True
    have "get_value_ptr_scalar name s2
           = (Inl (InputError (''Unsupported value type '' @ py_repr (var_type v))),
              completed ''get_var_type'' [c_char_p name, byref ''var_type''] (heap s2) s2)"
      using assms(1,2,4,6) get_value_ptr_scalar_unsupported [of s2 name v] by (simp add: l2)
    with True rank type contiguous kw show ?thesis
      by (simp add: get_value_def andthen_def Let_def s1_def s2_def)
  next
    case False
    have "get_var_shape name s2
           = (Inr (var_shape v),
              completed ''get_var_shape'' [c_char_p name, ''c_void_p(array)''] (heap s2)
                (completed ''get_var_rank'' [c_char_p name, byref ''rank''] (heap s2) s2))"
      using assms(1-5) get_var_shape_ok [of s2 name v] by (simp add: l2)
    with False rank type contiguous kw show ?thesis
      by (simp add: get_value_def andthen_def Let_def raise_def s1_def s2_def)
  qed
qed

lemma get_value_ptr_unsupported:
  assumes "the_variable (lib s) name = Some v" and "described (lib s) v"
    and "answers (lib s) ''get_var_rank''" and "answers (lib s) ''get_var_type''"
    and "answers (lib s) ''get_var_shape''" and "unsupported (var_type v)"
  shows "fst (get_value_ptr name s)
           = Inl (InputError (''Unsupported value type '' @ py_repr (var_type v)))
         \<and> calls (snd (get_value_ptr name s))
           = calls s @ (if var_rank v = 0 then [''get_var_rank'', ''get_var_type'']
                        else [''get_var_rank'', ''get_var_type'', ''get_var_rank'', ''get_var_shape''])"
proof -
  define s1 where "s1 = completed ''get_var_rank'' [c_char_p name, byref ''rank''] (heap s) s"
  define s2 where "s2 = completed ''get_var_type'' [c_char_p name, byref ''var_type''] (heap s1) s1"
  have l1: "lib s1 = lib s" and l2: "lib s2 = lib s" by (simp_all add: s1_def s2_def)
  have rank: "get_var_rank name s = (Inr (var_rank v), s1)"
    unfolding s1_def using assms(3,1) by (rule get_var_rank_ok)
  have kw: "\<not> startswith (lower (var_type v)) ''double''" "\<not> startswith (lower (var_type v)) ''int''"
      "\<not> startswith (lower (var_type v)) ''float''"
    using assms(6) by (simp_all add: unsupported_def)
  show ?thesis
  proof (cases "var_rank v = 0")
    case True
    have "get_value_ptr_scalar name s1
           = (Inl (InputError (''Unsupported value type '' @ py_repr (var_type v))),
              completed ''get_var_type'' [c_char_p name, byref ''var_type''] (heap s1) s1)"
      using assms(1,2,4,6) get_value_ptr_scalar_unsupported [of s1 name v] by (simp add: l1)
    with True rank show ?thesis
      by (simp add: get_value_ptr_def andthen_def s1_def)
  next
    case False
    have type: "get_var_type name s1 = (Inr (var_type v), s2)"
      unfolding s2_def using assms(1,2,4) get_var_type_ok [of s1 name v] by (simp add: l1)
    have "get_var_shape name s2
           = (Inr (var_shape v),
              completed ''get_var_shape'' [c_char_p name, ''c_void_p(array)''] (heap s2)
                (completed ''get_var_rank'' [c_char_p name, byref ''rank''] (heap s2) s2))"
      using assms(1-5) get_var_shape_ok [of s2 name v] by (simp add: l2)
    with False rank type kw show ?thesis
      by (simp add: get_value_ptr_def andthen_def Let_def raise_def s1_def s2_def)
  qed
qed

lemma set_value_unsupported:
  assumes "the_variable (lib s) name = Some v" and "described (lib s) v"
    and "answers (lib s) ''get_var_type''" and "unsupported (var_type v)"
    and "c_contiguous values"
  shows "fst (set_value name values s) = Inl (InputError ''Unsupported value type'')
         \<and> calls (snd (set_value name values s)) = calls s @ [''get_var_type'']"
  using assms(4,5) get_var_type_ok [OF assms(3,1,2)]
  by (simp add: set_value_def andthen_def Let_def raise_def unsupported_def)

text \<open>
  C5. Let the type string of a variable begin, in any letter case, with none of
  \<open>double\<close>, \<open>float\<close>, \<open>int\<close> and \<open>string\<close>, and let the metadata queries succeed.
  Then \<open>get_value\<close> (with no destination or a contiguous one), \<open>get_value_ptr\<close> and
  \<open>set_value\<close> (with a contiguous source) raise \<open>InputError\<close> with the text
  \<open>Unsupported value type\<close> (the specification's \<open>UnsupportedTypeError\<close>), and the only
  native entry points they have called are \<open>get_var_rank\<close>, \<open>get_var_type\<close> and
  \<open>get_var_shape\<close>: none of \<open>get_value\<close>, \<open>get_value_ptr\<close>, \<open>set_value\<close>.
\<close>

theorem unsupported_type_rejected:
  assumes "the_variable (lib s) name = Some v" and "described (lib s) v"
    and "answers (lib s) ''get_var_rank''" and "answers (lib s) ''get_var_type''"
    and "answers (lib s) ''get_var_shape''" and "unsupported (var_type v)"
    and "case dest of Some d \<Rightarrow> c_contiguous d | None \<Rightarrow> True"
    and "c_contiguous values"
  shows "fst (get_value name dest s)
           = Inl (InputError (''Unsupported value type '' @ py_repr (var_type v)))
         \<and> calls (snd (get_value name dest s))
           = calls s @ (if var_rank v = 0 then [''get_var_rank'', ''get_var_type'', ''get_var_type'']
                        else [''get_var_rank'', ''get_var_type'', ''get_var_rank'', ''get_var_shape''])
         \<and> fst (get_value_ptr name s)
           = Inl (InputError (''Unsupported value type '' @ py_repr (var_type v)))
         \<and> calls (snd (get_value_ptr name s))
           = calls s @ (if var_rank v = 0 then [''get_var_rank'', ''get_var_type'']
                        else [''get_var_rank'', ''get_var_type'', ''get_var_rank'', ''get_var_shape''])
         \<and> fst (set_value name values s) = Inl (InputError ''Unsupported value type'')
         \<and> calls (snd (set_value name values s)) = calls s @ [''get_var_type'']"
  using get_value_unsupported [OF assms(1-7)] get_value_ptr_unsupported [OF assms(1-6)]
    set_value_unsupported [OF assms(1,2,4,6,8)]
  by simp

lemma stub_answers:
  "answers (lib stub) ''get_var_rank''" "answers (lib stub) ''get_var_type''"
  "answers (lib stub) ''get_var_shape''" "answers (lib stub) ''get_var_nbytes''"
  "answers (lib stub) ''get_value''" "answers (lib stub) ''get_value_ptr''"
  "answers (lib stub) ''set_value''"
  by (simp_all add: answers_def stub_def stub_library_def stub_status_def)

lemma stub_flag:
  "the_variable (lib stub) ''FLAG''
     = Some \<lparr>var_rank = 1, var_type = ''LOGICAL (1)'', var_shape = [1], var_nbytes = 4, var_addr = 3\<rparr>"
  "described (lib stub)
     \<lparr>var_rank = 1, var_type = ''LOGICAL (1)'', var_shape = [1], var_nbytes = 4, var_addr = 3\<rparr>"
  "unsupported ''LOGICAL (1)''"
  by code_simp+

theorem unsupported_type_rejected_witness:
  "fst (get_value ''FLAG'' None stub)
     = Inl (InputError (''Unsupported value type '' @ py_repr ''LOGICAL (1)''))
   \<and> calls (snd (get_value ''FLAG'' None stub))
     = [''get_var_rank'', ''get_var_type'', ''get_var_rank'', ''get_var_shape'']
   \<and> fst (get_value_ptr ''FLAG'' stub)
     = Inl (InputError (''Unsupported value type '' @ py_repr ''LOGICAL (1)''))
   \<and> fst (set_value ''FLAG'' \<lparr>data = 3, dtype = int32, shape = [1], c_contiguous = True\<rparr> stub)
     = Inl (InputError ''Unsupported value type'')
   \<and> calls (snd (set_value ''FLAG'' \<lparr>data = 3, dtype = int32, shape = [1], c_contiguous = True\<rparr> stub))
     = [''get_var_type'']"
proof -
  have "calls stub = []" by (simp add: stub_def)
  then show ?thesis
    using unsupported_type_rejected [OF stub_flag(1,2) stub_answers(1,2,3), of None
        "\<lparr>data = 3, dtype = int32, shape = [1], c_contiguous = True\<rparr>"] stub_flag(3)
    by simp
qed

lemma startswith_int_not_double:
  "startswith ty ''int'' \<Longrightarrow> \<not> startswith ty ''double''"
  by (cases ty) (auto simp: startswith_def)

text \<open>
  C6. \<open>get_value\<close> with a destination that is not C-contiguous, and \<open>set_value\<close> with a
  source that is not C-contiguous, raise \<open>InputError\<close> with the text
  \<open>Array should have C layout\<close> (the specification's \<open>LayoutError\<close>) and return the state
  they were given, so no native entry point has been called. \<open>set_value\<close> with a
  contiguous source whose element type is not \<open>float64\<close> for a variable of type double,
  or not \<open>int32\<close> for a variable of type int, raises \<open>InputError\<close> (the specification's
  \<open>TypeError\<close>) after the one call of \<open>get_var_type\<close>: the native \<open>set_value\<close> has not
  been called.
\<close>

theorem layout_and_element_type_checked:
  "(\<not> c_contiguous d \<longrightarrow>
      get_value name (Some d) s = (Inl (InputError ''Array should have C layout''), s))
   \<and> (\<not> c_contiguous values \<longrightarrow>
      set_value name values s = (Inl (InputError ''Array should have C layout''), s))
   \<and> (c_contiguous values \<and> the_variable (lib s) name = Some v \<and> described (lib s) v
      \<and> answers (lib s) ''get_var_type'' \<and> startswith (lower (var_type v)) ''double''
      \<and> dtype values \<noteq> float64 \<longrightarrow>
      fst (set_value name values s) = Inl (InputError ''Array should have float64 elements'')
      \<and> calls (snd (set_value name values s)) = calls s @ [''get_var_type''])
   \<and> (c_contiguous values \<and> the_variable (lib s) name = Some v \<and> described (lib s) v
      \<and> answers (lib s) ''get_var_type'' \<and> startswith (lower (var_type v)) ''int''
      \<and> dtype values \<noteq> int32 \<longrightarrow>
      fst (set_value name values s) = Inl (InputError ''Array should have int32 elements'')
      \<and> calls (snd (set_value name values s)) = calls s @ [''get_var_type''])"
proof (intro conjI impI)
  assume "\<not> c_contiguous d"
  then show "get_value name (Some d) s = (Inl (InputError ''Array should have C layout''), s)"
    by (simp add: get_value_def raise_def)
next
  assume "\<not> c_contiguous values"
  then show "set_value name values s = (Inl (InputError ''Array should have C layout''), s)"
    by (simp add: set_value_def raise_def)
next
  assume h: "c_contiguous values \<and> the_variable (lib s) name = Some v \<and> described (lib s) v
      \<and> answers (lib s) ''get_var_type'' \<and> startswith (lower (var_type v)) ''double''
      \<and> dtype values \<noteq> float64"
  then have "get_var_type name s
           = (Inr (var_type v),
              completed ''get_var_type'' [c_char_p name, byref ''var_type''] (heap s) s)"
    by (simp add: get_var_type_ok)
  with h show "fst (set_value name values s) = Inl (InputError ''Array should have float64 elements'')"
    and "calls (snd (set_value name values s)) = calls s @ [''get_var_type'']"
    by (simp_all add: set_value_def andthen_def Let_def raise_def)
next
  assume h: "c_contiguous values \<and> the_variable (lib s) name = Some v \<and> described (lib s) v
      \<and> answers (lib s) ''get_var_type'' \<and> startswith (lower (var_type v)) ''int''
      \<and> dtype values \<noteq> int32"
  then have "get_var_type name s
           = (Inr (var_type v),
              completed ''get_var_type'' [c_char_p name, byref ''var_type''] (heap s) s)"
    by (simp add: get_var_type_ok)
  moreover from h have "\<not> startswith (lower (var_type v)) ''double''"
    by (simp add: startswith_int_not_double)
  ultimately show "fst (set_value name values s) = Inl (InputError ''Array should have int32 elements'')"
    and "calls (snd (set_value name values s)) = calls s @ [''get_var_type'']"
    using h by (simp_all add: set_value_def andthen_def Let_def raise_def)
qed

lemma stub_head:
  "the_variable (lib stub) ''HEAD''
     = Some \<lparr>var_rank = 2, var_type = ''DOUBLE (3,2)'', var_shape = [2, 3], var_nbytes = 48, var_addr = 0\<rparr>"
  "described (lib stub)
     \<lparr>var_rank = 2, var_type = ''DOUBLE (3,2)'', var_shape = [2, 3], var_nbytes = 48, var_addr = 0\<rparr>"
  "startswith (lower ''DOUBLE (3,2)'') ''double''"
  by code_simp+

lemma stub_mxiter:
  "the_variable (lib stub) ''MXITER''
     = Some \<lparr>var_rank = 0, var_type = ''INTEGER'', var_shape = [], var_nbytes = 4, var_addr = 1\<rparr>"
  "described (lib stub)
     \<lparr>var_rank = 0, var_type = ''INTEGER'', var_shape = [], var_nbytes = 4, var_addr = 1\<rparr>"
  "startswith (lower ''INTEGER'') ''int''"
  by code_simp+

theorem layout_and_element_type_checked_witness:
  "get_value ''HEAD'' (Some \<lparr>data = 0, dtype = float64, shape = [3, 2], c_contiguous = False\<rparr>) stub
     = (Inl (InputError ''Array should have C layout''), stub)
   \<and> set_value ''HEAD'' \<lparr>data = 0, dtype = float64, shape = [3, 2], c_contiguous = False\<rparr> stub
     = (Inl (InputError ''Array should have C layout''), stub)
   \<and> fst (set_value ''HEAD'' \<lparr>data = 1, dtype = int32, shape = [2, 3], c_contiguous = True\<rparr> stub)
     = Inl (InputError ''Array should have float64 elements'')
   \<and> calls (snd (set_value ''HEAD'' \<lparr>data = 1, dtype = int32, shape = [2, 3], c_contiguous = True\<rparr> stub))
     = [''get_var_type'']
   \<and> fst (set_value ''MXITER'' \<lparr>data = 0, dtype = float64, shape = [1], c_contiguous = True\<rparr> stub)
     = Inl (InputError ''Array should have int32 elements'')"
proof -
  have "calls stub = []" by (simp add: stub_def)
  then show ?thesis
    using layout_and_element_type_checked [of
        "\<lparr>data = 0, dtype = float64, shape = [3, 2], c_contiguous = False\<rparr>" "''HEAD''" stub
        "\<lparr>data = 0, dtype = float64, shape = [3, 2], c_contiguous = False\<rparr>"]
      layout_and_element_type_checked [of _ "''HEAD''" stub
        "\<lparr>data = 1, dtype = int32, shape = [2, 3], c_contiguous = True\<rparr>"
        "\<lparr>var_rank = 2, var_type = ''DOUBLE (3,2)'', var_shape = [2, 3], var_nbytes = 48, var_addr = 0\<rparr>"]
      layout_and_element_type_checked [of _ "''MXITER''" stub
        "\<lparr>data = 0, dtype = float64, shape = [1], c_contiguous = True\<rparr>"
        "\<lparr>var_rank = 0, var_type = ''INTEGER'', var_shape = [], var_nbytes = 4, var_addr = 1\<rparr>"]
      stub_head stub_mxiter stub_answers(2)
    by simp
qed

section \<open>The shape of an aliased view\<close>

lemma takeWhile_zeros:
  "takeWhile (\<lambda>i. i = (0::int)) xs = replicate (length (takeWhile (\<lambda>i. i = 0) xs)) 0"
  by (induction xs) auto

lemma takeWhile_rev_append_zeros:
  assumes "xs \<noteq> []" and "hd xs \<noteq> (0::int)"
  shows "takeWhile (\<lambda>i. i = 0) (rev xs @ replicate k 0) = takeWhile (\<lambda>i. i = 0) (rev xs)"
proof -
  from assms have "hd xs \<in> set (rev xs)" and "\<not> hd xs = 0" by simp_all
  then show ?thesis by (rule takeWhile_append1)
qed

lemma trim_zeros_all_zero:
  assumes "dropWhile (\<lambda>i. i = 0) filt = []"
  shows "trim_zeros filt = []"
proof -
  from assms have "\<forall>x \<in> set filt. x = 0" by (simp add: dropWhile_eq_Nil_conv)
  then have "takeWhile (\<lambda>i. i = 0) filt = filt"
    by (simp add: takeWhile_eq_all_conv)
  then have "length (takeWhile (\<lambda>i. i = 0) filt) = length filt"
    by (rule arg_cong)
  then show ?thesis by (simp add: trim_zeros_def Let_def)
qed

lemma trim_zeros_eq:
  "trim_zeros filt = rev (dropWhile (\<lambda>i. i = 0) (rev (dropWhile (\<lambda>i. i = 0) filt)))"
proof (cases "dropWhile (\<lambda>i. i = 0) filt = []")
  case True
  then have "trim_zeros filt = []" by (rule trim_zeros_all_zero)
  moreover have "rev (dropWhile (\<lambda>i. i = 0) (rev (dropWhile (\<lambda>i. i = 0) filt))) = []"
    unfolding True by simp
  ultimately show ?thesis by (rule trans [OF _ sym])
next
  case False
  define front where "front = length (takeWhile (\<lambda>i. i = 0) filt)"
  define rest where "rest = dropWhile (\<lambda>i. i = 0) filt"
  define k where "k = length (takeWhile (\<lambda>i. i = 0) (rev rest))"
  have ne: "rest \<noteq> []" using False by (simp add: rest_def)
  have hd: "hd rest \<noteq> 0"
    unfolding rest_def using False hd_dropWhile [of "\<lambda>i. i = 0" filt] by simp
  have "takeWhile (\<lambda>i. i = 0) filt @ dropWhile (\<lambda>i. i = 0) filt = filt"
    by (rule takeWhile_dropWhile_id)
  then have filt: "filt = replicate front 0 @ rest"
    unfolding front_def rest_def using takeWhile_zeros [of filt] by simp
  then have "rev filt = rev rest @ replicate front 0" by simp
  then have tw: "length (takeWhile (\<lambda>i. i = 0) (rev filt)) = k"
    using takeWhile_rev_append_zeros [OF ne hd, of front] by (simp add: k_def)
  have drop: "drop front filt = rest" and len: "length filt = front + length rest"
    using filt by simp_all
  have "trim_zeros filt = take (length filt - k - front) (drop front filt)"
    unfolding trim_zeros_def Let_def tw front_def by simp
  also have "\<dots> = take (length rest - k) rest"
    unfolding drop len by simp
  also have "\<dots> = rev (drop k (rev rest))"
    by (simp add: rev_drop)
  also have "drop k (rev rest) = dropWhile (\<lambda>i. i = 0) (rev rest)"
    unfolding k_def by (rule dropWhile_eq_drop [symmetric])
  finally show ?thesis by (simp add: rest_def)
qed

lemma dropWhile_zeros_split:
  "\<exists>n. xs = replicate n (0::int) @ dropWhile (\<lambda>i. i = 0) xs"
proof (induction xs)
  case Nil
  show ?case by simp
next
  case (Cons x xs)
  then obtain n where n: "xs = replicate n 0 @ dropWhile (\<lambda>i. i = 0) xs" by blast
  show ?case
  proof (cases "x = 0")
    case True
    with n have "x # xs = replicate (Suc n) 0 @ dropWhile (\<lambda>i. i = 0) (x # xs)" by simp
    then show ?thesis by blast
  next
    case False
    then have "x # xs = replicate 0 0 @ dropWhile (\<lambda>i. i = 0) (x # xs)" by simp
    then show ?thesis by blast
  qed
qed

lemma rev_eq_append:
  assumes "rev xs = ys @ zs"
  shows "xs = rev zs @ rev ys"
proof -
  have "xs = rev (rev xs)" by simp
  also have "\<dots> = rev (ys @ zs)" by (simp only: assms)
  finally show ?thesis by simp
qed

lemma trim_zeros_split:
  "\<exists>front trail. filt = replicate front 0 @ trim_zeros filt @ replicate trail 0"
proof -
  define rest where "rest = dropWhile (\<lambda>i. i = 0) filt"
  define inner where "inner = dropWhile (\<lambda>i. i = 0) (rev rest)"
  have tz: "trim_zeros filt = rev inner"
    by (simp add: trim_zeros_eq rest_def inner_def)
  obtain front where f: "filt = replicate front 0 @ rest"
    unfolding rest_def using dropWhile_zeros_split by blast
  obtain trail where "rev rest = replicate trail 0 @ inner"
    unfolding inner_def using dropWhile_zeros_split by blast
  then have "rest = rev inner @ rev (replicate trail 0)"
    by (rule rev_eq_append)
  then have "rest = trim_zeros filt @ replicate trail 0"
    by (simp add: tz)
  then have "replicate front 0 @ rest = replicate front 0 @ trim_zeros filt @ replicate trail 0"
    by (rule arg_cong)
  with f have "filt = replicate front 0 @ trim_zeros filt @ replicate trail 0"
    by (rule trans)
  then show ?thesis by blast
qed

lemma trim_zeros_ends:
  "trim_zeros filt = [] \<or> hd (trim_zeros filt) \<noteq> 0 \<and> last (trim_zeros filt) \<noteq> 0"
proof (cases "trim_zeros filt = []")
  case True
  then show ?thesis by simp
next
  case False
  define rest where "rest = dropWhile (\<lambda>i. i = 0) filt"
  define inner where "inner = dropWhile (\<lambda>i. i = 0) (rev rest)"
  have tz: "trim_zeros filt = rev inner"
    by (simp add: trim_zeros_eq rest_def inner_def)
  from False have ne: "inner \<noteq> []" by (simp add: tz)
  then have "hd inner \<noteq> 0"
    unfolding inner_def using hd_dropWhile [of "\<lambda>i. i = 0" "rev rest"] by simp
  then have l: "last (trim_zeros filt) \<noteq> 0"
    using ne by (simp add: tz last_rev)
  from ne have "rev rest \<noteq> []" unfolding inner_def by auto
  then have "dropWhile (\<lambda>i. i = 0) filt \<noteq> []" by (simp add: rest_def)
  then have hr: "hd rest \<noteq> 0"
    unfolding rest_def using hd_dropWhile [of "\<lambda>i. i = 0" filt] by simp
  obtain k where "rev rest = replicate k 0 @ inner"
    unfolding inner_def using dropWhile_zeros_split by blast
  then have "rest = rev inner @ rev (replicate k 0)"
    by (rule rev_eq_append)
  then have "hd rest = hd (rev inner @ rev (replicate k 0))"
    by (rule arg_cong)
  also have "\<dots> = hd (rev inner)" using ne by simp
  finally have "hd (trim_zeros filt) \<noteq> 0" using hr by (simp add: tz)
  with l show ?thesis by simp
qed

lemma negative_dimensions_trim_zeros:
  assumes "\<not> negative_dimensions shp"
  shows "\<not> negative_dimensions (trim_zeros shp)"
proof -
  have "set (trim_zeros shp) \<subseteq> set shp"
    unfolding trim_zeros_def Let_def
    using set_take_subset set_drop_subset by (rule subset_trans)
  with assms show ?thesis
    by (auto simp: negative_dimensions_def list_ex_iff)
qed

lemma lib_function_answers: "answers (lib s) fname \<Longrightarrow> lib_function fname s = (Inr (), s)"
  by (simp add: lib_function_def answers_def)

lemma get_value_ptr_call_ok:
  assumes "answers (lib s) ''get_value_ptr''" and "the_variable (lib s) name = Some v"
  shows "execute_function ''get_value_ptr'' [c_char_p name, byref ''values'']
             (Some (for_variable name)) (native_get_value_ptr name) s
         = (Inr (var_addr v),
            completed ''get_value_ptr'' [c_char_p name, byref ''values''] (heap s) s)"
proof -
  have "native_get_value_ptr name (lib s) (calls s) (heap s) = (0, var_addr v, heap s)"
    using assms by (simp add: native_get_value_ptr_def var_status_ok)
  then show ?thesis by (rule execute_function_success)
qed

lemma pointer_dtype_choice:
  assumes "pointer_dtype ty = Some dt"
  shows "(if startswith (lower ty) ''double'' then ret float64
          else if startswith (lower ty) ''float'' then ret float32
          else if startswith (lower ty) ''int'' then ret int32
          else raise (InputError (''Unsupported value type '' @ py_repr ty))) = ret dt"
  using assms by (auto simp: pointer_dtype_def split: if_splits)


lemma get_value_ptr_array_call:
  assumes "answers (lib s) ''get_var_rank''" and "answers (lib s) ''get_var_type''"
    and "answers (lib s) ''get_var_shape''" and "answers (lib s) ''get_value_ptr''"
    and "the_variable (lib s) name = Some v" and "described (lib s) v"
    and "var_rank v \<noteq> 0" and "pointer_dtype (var_type v) = Some dt"
  shows "\<exists>s'. heap s' = heap s
           \<and> get_value_ptr name s
               = ndpointer_contents (var_addr v) dt (trim_zeros (var_shape v)) s'"
proof -
  define s1 where "s1 = completed ''get_var_rank'' [c_char_p name, byref ''rank''] (heap s) s"
  define s2 where "s2 = completed ''get_var_type'' [c_char_p name, byref ''var_type''] (heap s1) s1"
  define s3 where "s3 = completed ''get_var_shape'' [c_char_p name, ''c_void_p(array)''] (heap s2)
                (completed ''get_var_rank'' [c_char_p name, byref ''rank''] (heap s2) s2)"
  define s4 where "s4 = completed ''get_value_ptr'' [c_char_p name, byref ''values''] (heap s3) s3"
  have l: "lib s1 = lib s" "lib s2 = lib s" "lib s3 = lib s"
    and h: "heap s1 = heap s" "heap s2 = heap s" "heap s3 = heap s" "heap s4 = heap s"
    by (simp_all add: s1_def s2_def s3_def s4_def)
  have rank: "get_var_rank name s = (Inr (var_rank v), s1)"
    unfolding s1_def using assms(1,5) by (rule get_var_rank_ok)
  have type: "get_var_type name s1 = (Inr (var_type v), s2)"
    unfolding s2_def using assms(2,5,6) get_var_type_ok [of s1 name v] by (simp add: l)
  have shape: "get_var_shape name s2 = (Inr (var_shape v), s3)"
    unfolding s3_def using assms(1,3,5,6) get_var_shape_ok [of s2 name v] by (simp add: l)
  have a: "answers (lib s3) ''get_value_ptr''" "the_variable (lib s3) name = Some v"
    using assms(4,5) by (simp_all add: l)
  have lf: "lib_function ''get_value_ptr'' s3 = (Inr (), s3)"
    using a(1) by (rule lib_function_answers)
  have call: "execute_function ''get_value_ptr'' [c_char_p name, byref ''values'']
             (Some (for_variable name)) (native_get_value_ptr name) s3
         = (Inr (var_addr v), s4)"
    unfolding s4_def using a by (rule get_value_ptr_call_ok)
  have "get_value_ptr name s
          = ndpointer_contents (var_addr v) dt (trim_zeros (var_shape v)) s4"
    unfolding get_value_ptr_def Let_def
    using assms(7)
    by (simp add: andthen_def rank type shape pointer_dtype_choice [OF assms(8)] ret_def lf call)
  with h(4) show ?thesis by blast
qed

lemma get_value_ptr_array_ok:
  assumes "answers (lib s) ''get_var_rank''" and "answers (lib s) ''get_var_type''"
    and "answers (lib s) ''get_var_shape''" and "answers (lib s) ''get_value_ptr''"
    and "the_variable (lib s) name = Some v" and "described (lib s) v"
    and "var_rank v \<noteq> 0" and "pointer_dtype (var_type v) = Some dt"
    and "\<not> negative_dimensions (var_shape v)"
    and "0 \<notin> set (trim_zeros (var_shape v))"
  shows "fst (get_value_ptr name s)
           = Inr \<lparr>data = var_addr v, dtype = dt, shape = trim_zeros (var_shape v),
                  c_contiguous = True\<rparr>
         \<and> heap (snd (get_value_ptr name s)) = heap s"
proof -
  obtain s' where s': "heap s' = heap s"
    "get_value_ptr name s = ndpointer_contents (var_addr v) dt (trim_zeros (var_shape v)) s'"
    using get_value_ptr_array_call [OF assms(1-8)] by blast
  show ?thesis
    unfolding s'(2)
    using negative_dimensions_trim_zeros [OF assms(9)] assms(10) s'(1)
    by (simp add: ndpointer_contents_def ret_def)
qed

lemma get_value_ptr_zero_dimension:
  assumes "answers (lib s) ''get_var_rank''" and "answers (lib s) ''get_var_type''"
    and "answers (lib s) ''get_var_shape''" and "answers (lib s) ''get_value_ptr''"
    and "the_variable (lib s) name = Some v" and "described (lib s) v"
    and "var_rank v \<noteq> 0" and "pointer_dtype (var_type v) = Some dt"
    and "\<not> negative_dimensions (var_shape v)"
    and "0 \<in> set (trim_zeros (var_shape v))"
  shows "fst (get_value_ptr name s) = Inl (ValueError ''itemsize cannot be zero in type'')"
proof -
  obtain s' where s': "heap s' = heap s"
    "get_value_ptr name s = ndpointer_contents (var_addr v) dt (trim_zeros (var_shape v)) s'"
    using get_value_ptr_array_call [OF assms(1-8)] by blast
  show ?thesis
    unfolding s'(2)
    using negative_dimensions_trim_zeros [OF assms(9)] assms(10)
    by (simp add: ndpointer_contents_def raise_def)
qed

text \<open>
  C7, as amended. Take a variable of rank 1 or more, of a type \<open>get_value_ptr\<close> knows
  and with no negative dimension. \<open>get_value_ptr\<close> removes the zeros at the front and
  at the back of the shape that \<open>get_var_shape\<close> reports. When no zero is left, the view
  it returns lies over the variable's own memory and has that shape: the reported shape
  is the view's shape between two runs of zeros. When a zero is left, between two
  nonzero dimensions, \<^verbatim>\<open>values.contents\<close> raises \<open>ValueError\<close> and no view is returned.
\<close>

theorem aliased_view_shape:
  assumes "answers (lib s) ''get_var_rank''" and "answers (lib s) ''get_var_type''"
    and "answers (lib s) ''get_var_shape''" and "answers (lib s) ''get_value_ptr''"
    and "the_variable (lib s) name = Some v" and "described (lib s) v"
    and "var_rank v \<noteq> 0" and "pointer_dtype (var_type v) = Some dt"
    and "\<not> negative_dimensions (var_shape v)"
  shows "(0 \<notin> set (trim_zeros (var_shape v)) \<longrightarrow>
           (\<exists>a front trail.
              fst (get_value_ptr name s) = Inr a
              \<and> data a = var_addr v \<and> dtype a = dt
              \<and> shape a = trim_zeros (var_shape v)
              \<and> var_shape v = replicate front 0 @ shape a @ replicate trail 0
              \<and> 0 \<notin> set (shape a)))
         \<and> (0 \<in> set (trim_zeros (var_shape v)) \<longrightarrow>
              fst (get_value_ptr name s)
                = Inl (ValueError ''itemsize cannot be zero in type''))"
proof (intro conjI impI)
  assume nz: "0 \<notin> set (trim_zeros (var_shape v))"
  define a where "a = \<lparr>data = var_addr v, dtype = dt, shape = trim_zeros (var_shape v),
                        c_contiguous = True\<rparr>"
  have result: "fst (get_value_ptr name s) = Inr a"
    unfolding a_def using get_value_ptr_array_ok [OF assms nz] by simp
  have fields: "data a = var_addr v" "dtype a = dt" "shape a = trim_zeros (var_shape v)"
    by (simp_all add: a_def)
  obtain front trail
    where split: "var_shape v = replicate front 0 @ shape a @ replicate trail 0"
    unfolding fields(3) using trim_zeros_split [of "var_shape v"] by blast
  have none: "0 \<notin> set (shape a)"
    unfolding fields(3) by (rule nz)
  from result fields split none
  show "\<exists>a front trail.
          fst (get_value_ptr name s) = Inr a
          \<and> data a = var_addr v \<and> dtype a = dt
          \<and> shape a = trim_zeros (var_shape v)
          \<and> var_shape v = replicate front 0 @ shape a @ replicate trail 0
          \<and> 0 \<notin> set (shape a)"
    by blast
next
  assume "0 \<in> set (trim_zeros (var_shape v))"
  with assms show "fst (get_value_ptr name s)
                     = Inl (ValueError ''itemsize cannot be zero in type'')"
    by (rule get_value_ptr_zero_dimension)
qed

lemma stub_idomain:
  "the_variable (lib stub) ''IDOMAIN''
     = Some \<lparr>var_rank = 2, var_type = ''INTEGER (5,0)'', var_shape = [0, 5], var_nbytes = 0, var_addr = 4\<rparr>"
  "described (lib stub)
     \<lparr>var_rank = 2, var_type = ''INTEGER (5,0)'', var_shape = [0, 5], var_nbytes = 0, var_addr = 4\<rparr>"
  "pointer_dtype ''INTEGER (5,0)'' = Some int32"
  "\<not> negative_dimensions [0, 5]"
  "0 \<notin> set (trim_zeros [0, 5])"
  by code_simp+

lemma stub_icelltype:
  "the_variable (lib stub) ''ICELLTYPE''
     = Some \<lparr>var_rank = 3, var_type = ''INTEGER (3,0,5)'', var_shape = [5, 0, 3], var_nbytes = 0, var_addr = 8\<rparr>"
  "described (lib stub)
     \<lparr>var_rank = 3, var_type = ''INTEGER (3,0,5)'', var_shape = [5, 0, 3], var_nbytes = 0, var_addr = 8\<rparr>"
  "pointer_dtype ''INTEGER (3,0,5)'' = Some int32"
  "\<not> negative_dimensions [5, 0, 3]"
  "0 \<in> set (trim_zeros [5, 0, 3])"
  by code_simp+

theorem aliased_view_shape_witness:
  "(\<exists>a front trail.
      fst (get_value_ptr ''IDOMAIN'' stub) = Inr a
      \<and> data a = 4 \<and> dtype a = int32
      \<and> shape a = trim_zeros [0, 5]
      \<and> [0, 5] = replicate front 0 @ shape a @ replicate trail 0
      \<and> 0 \<notin> set (shape a))
   \<and> fst (get_value_ptr ''ICELLTYPE'' stub)
       = Inl (ValueError ''itemsize cannot be zero in type'')"
  using aliased_view_shape [OF stub_answers(1,2,3,6) stub_idomain(1,2), of int32]
    aliased_view_shape [OF stub_answers(1,2,3,6) stub_icelltype(1,2), of int32]
    stub_idomain(3,4,5) stub_icelltype(3,4,5)
  by simp

text \<open>
  C7, as stated, fails. The stub's variable \<open>IDOMAIN\<close> has the shape \<open>(0, 5)\<close>, and the
  view \<open>get_value_ptr\<close> returns has the shape \<open>(5)\<close>: the leading zero is gone, as is
  the trailing zero of \<open>(10, 5, 0)\<close>. The stub's variable \<open>ICELLTYPE\<close> has the shape
  \<open>(5, 0, 3)\<close>, which the trimming leaves as it is, and \<open>get_value_ptr\<close> returns no view
  of it.
\<close>

theorem aliased_view_drops_leading_zero:
  "map_option var_shape (the_variable (lib stub) ''IDOMAIN'') = Some [0, 5]
   \<and> fst (get_value_ptr ''IDOMAIN'' stub)
       = Inr \<lparr>data = 4, dtype = int32, shape = [5], c_contiguous = True\<rparr>
   \<and> trim_zeros [10, 5, 0] = [10, 5]
   \<and> map_option var_shape (the_variable (lib stub) ''ICELLTYPE'') = Some [5, 0, 3]
   \<and> trim_zeros [5, 0, 3] = [5, 0, 3]
   \<and> fst (get_value_ptr ''ICELLTYPE'' stub)
       = Inl (ValueError ''itemsize cannot be zero in type'')"
  by code_simp

section \<open>Transferring values\<close>

lemma numeric_not_string:
  "startswith ty ''double'' \<or> startswith ty ''float'' \<or> startswith ty ''int''
     \<Longrightarrow> \<not> startswith ty ''string''"
  by (cases ty) (auto simp: startswith_def)


lemma array_dtype_not_string:
  "array_dtype ty = Some dt \<Longrightarrow> \<not> startswith (lower ty) ''string''"
  using numeric_not_string [of "lower ty"]
  by (auto simp: array_dtype_def split: if_splits)













section \<open>Copy isolation\<close>


lemma grows_refl: "grows s s" by (simp add: grows_def)























lemma still_refl: "still s s" by (simp add: still_def)












lemma aliases_raise: "aliases name (raise e)"
  by (simp add: aliases_def raise_def)











section \<open>Decoding fixed-width strings\<close>




lemma not_isspace_nul: "\<not> py_isspace NUL"
  by (simp add: py_isspace_def)





lemma split_nul_padded: "NUL \<notin> set t \<Longrightarrow> split_nul (t @ NUL # rest) = t"
  by (induction t) (auto simp: split_nul_def)

lemma split_nul_whole: "NUL \<notin> set t \<Longrightarrow> split_nul t = t"
  by (induction t) (auto simp: split_nul_def)

lemma is_ascii_append [simp]: "is_ascii (xs @ ys) \<longleftrightarrow> is_ascii xs \<and> is_ascii ys"
  by (simp add: is_ascii_def)


lemma is_ascii_nuls [simp]: "is_ascii (replicate k NUL)"
  by (simp add: is_ascii_def list_all_iff)




lemma length_pad [simp]: "length (pad w bs) = w"
  by (simp add: pad_def)




























section \<open>Trimming of fixed-width strings\<close>










end
